theory Spec2Isabelle
  imports Main "HOL-Library.Sublist"
begin

section \<open>Data model\<close>

text \<open>
  Go strings are byte sequences, so they are \<^typ>\<open>string\<close>; a \<^verbatim>\<open>[]byte\<close> is
  modelled the same way, which makes the conversion \<^verbatim>\<open>string(b)\<close> the identity.
  A \<^verbatim>\<open>time.Duration\<close> is a count of nanoseconds; the only durations the package
  builds are the two constants below, far from the 64-bit range.
\<close>

type_synonym bytes = string

type_synonym Duration = int

definition Second :: Duration where
  "Second = 1000000000"

definition requeueAfterSeconds :: int where
  "requeueAfterSeconds = 20"

definition requeueAfterFatalSeconds :: int where
  "requeueAfterFatalSeconds = 180"

text \<open>
  The remote virtual machine, with the fields the package reads or writes: the name and
  the version token of its metadata, and the readiness flag of its status.
\<close>

record ObjectMeta =
  Name :: string
  Namespace :: string
  ResourceVersion :: string

record VirtualMachineStatus =
  Created :: bool
  Ready :: bool

record VirtualMachine =
  ObjectMeta :: ObjectMeta
  Status :: VirtualMachineStatus

definition GetName :: "VirtualMachine \<Rightarrow> string" where
  "GetName vm = Name (ObjectMeta vm)"

record DeleteOptions =
  GracePeriodSeconds :: "int option"

record GetOptions =
  GetOptions_ResourceVersion :: string

record Machine =
  Machine_Name :: string
  Machine_Namespace :: string

subsection \<open>Errors\<close>

text \<open>
  An error made by a Kubernetes or KubeVirt library call is known to the code only by the
  two observations it makes of it: the text of \<^verbatim>\<open>Error()\<close> and the answer of
  \<^verbatim>\<open>apimachineryerrors.IsNotFound\<close>. The two are independent fields.
\<close>

datatype LibraryError = LibraryError (Error: string) (IsNotFound: bool)

text \<open>
  The values of Go's \<^verbatim>\<open>error\<close> that the two packages return: a library error
  passed through, \<^verbatim>\<open>fmt.Errorf(prefix + "%w", e)\<close>, the requeue signal
  \<^verbatim>\<open>&RequeueAfterError{RequeueAfter: d}\<close> and the machine error built by
  \<^verbatim>\<open>InvalidMachineConfiguration\<close>. A nil error is \<^term>\<open>None\<close>.
\<close>

datatype error =
    Library LibraryError
  | Errorf string error
  | RequeueAfterError Duration
  | InvalidMachineConfiguration string

text \<open>A call either returns or panics (a nil pointer dereference).\<close>

datatype 'a outcome = Return 'a | Panic

text \<open>\<^verbatim>\<open>strings.Contains(s, substr)\<close>: some suffix of \<open>s\<close> starts with \<open>substr\<close>.\<close>

fun Contains :: "string \<Rightarrow> string \<Rightarrow> bool" where
  "Contains [] substr = (substr = [])"
| "Contains (c # s) substr = (prefix substr (c # s) \<or> Contains s substr)"

subsection \<open>The machine scope\<close>

text \<open>
  Modelled from the spec: the condition attached to the provider status, a tagged outcome
  Success or Failed with a message (the functions \<^verbatim>\<open>conditionSuccess\<close> and
  \<^verbatim>\<open>conditionFailed\<close> and the condition type are not in the sources).
\<close>

datatype Condition = Success | Failed string

definition conditionSuccess :: Condition where
  "conditionSuccess = Success"

text \<open>
  Modelled from the spec: the provider status accumulated by a scope (the type is not in the
  sources): the condition, overwritten on every set, and the fields derived from the remote
  virtual machine, kept as the machine they were derived from and absent when cleared.
\<close>

record ProviderStatus =
  condition :: "Condition option"
  vmFields :: "VirtualMachine option"

text \<open>
  The VM API client held by a scope, with the four methods package vm calls. Each method
  runs on the outside world \<open>'w\<close> and returns the pair that the Go method returns; either
  component may be nil.
\<close>

record 'w Client =
  CreateVirtualMachine ::
    "string \<Rightarrow> VirtualMachine \<Rightarrow> 'w \<Rightarrow> (VirtualMachine option \<times> LibraryError option) \<times> 'w"
  DeleteVirtualMachine ::
    "string \<Rightarrow> string \<Rightarrow> DeleteOptions \<Rightarrow> 'w \<Rightarrow> LibraryError option \<times> 'w"
  GetVirtualMachine ::
    "string \<Rightarrow> string \<Rightarrow> GetOptions \<Rightarrow> 'w \<Rightarrow> (VirtualMachine option \<times> LibraryError option) \<times> 'w"
  UpdateVirtualMachine ::
    "string \<Rightarrow> VirtualMachine \<Rightarrow> 'w \<Rightarrow> (VirtualMachine option \<times> LibraryError option) \<times> 'w"

text \<open>
  Modelled from the spec: the machine scope (its type is not in the sources). It owns the
  rendered VM specification, the provider status being accumulated and the client built for
  the operation; \<open>updateAllowed\<close> is the answer of the method of that name.
\<close>

record 'w machineScope =
  machineName :: string
  machineNamespace :: string
  virtualMachine :: VirtualMachine
  kubevirtClient :: "'w Client"
  providerStatus :: ProviderStatus
  updateAllowed :: bool

definition getMachineName :: "'w machineScope \<Rightarrow> string" where
  "getMachineName sc = machineName sc"

definition getMachineNamespace :: "'w machineScope \<Rightarrow> string" where
  "getMachineNamespace sc = machineNamespace sc"

text \<open>
  Modelled from the spec: \<^verbatim>\<open>setProviderStatus(vm-or-nil, condition)\<close> overwrites the
  accumulated condition; with a VM it updates the derived fields, with nil it clears them and
  keeps the condition.
\<close>

definition setProviderStatus ::
  "VirtualMachine option \<Rightarrow> Condition \<Rightarrow> 'w machineScope \<Rightarrow> 'w machineScope" where
  "setProviderStatus vm c sc = sc\<lparr>providerStatus := \<lparr>condition = Some c, vmFields = vm\<rparr>\<rparr>"

text \<open>
  The rest of the scope's code is not in the sources and is taken as parameters: the
  constructor, the status patch-back, and the two setters that read the VM returned by the
  client. They take the place of the receiver \<^verbatim>\<open>m\<close> of the operations.
\<close>

record 'w manager =
  newMachineScope :: "Machine \<Rightarrow> 'w \<Rightarrow> (error + 'w machineScope) \<times> 'w"
  patchMachine :: "'w machineScope \<Rightarrow> 'w \<Rightarrow> error option \<times> 'w"
  setProviderID :: "VirtualMachine option \<Rightarrow> 'w machineScope \<Rightarrow> 'w machineScope"
  setMachineCloudProviderSpecifics ::
    "VirtualMachine option \<Rightarrow> 'w machineScope \<Rightarrow> error option \<times> 'w machineScope"

subsection \<open>State and the record of calls\<close>

text \<open>
  The operations run on the outside world and keep, beside it, the list of the calls they
  made to their collaborators, in order. A patch-back is recorded with the provider status
  it writes.
\<close>

datatype call =
    Call_patchMachine ProviderStatus
  | Call_CreateVirtualMachine string VirtualMachine
  | Call_GetVirtualMachine string string GetOptions
  | Call_DeleteVirtualMachine string string DeleteOptions
  | Call_UpdateVirtualMachine string VirtualMachine
  | Call_UserDataSecret string string
  | Call_NewClientConfigFromBytes bytes
  | Call_GetKubevirtClientFromClientConfig
  | Call_BuildConfigFromFlags string string
  | Call_NewForConfig

record 'w state =
  world :: 'w
  trace :: "call list"

definition called :: "call \<Rightarrow> 'w \<Rightarrow> 'w state \<Rightarrow> 'w state" where
  "called c w st = \<lparr>world = w, trace = trace st @ [c]\<rparr>"

section \<open>Package vm: the reconciler\<close>

definition createVM ::
  "VirtualMachine \<Rightarrow> 'w machineScope \<Rightarrow> 'w state
     \<Rightarrow> (VirtualMachine option \<times> LibraryError option) \<times> 'w state" where
  "createVM vm sc st =
     (let ns = getMachineNamespace sc;
          (r, w) = CreateVirtualMachine (kubevirtClient sc) ns vm (world st)
      in (r, called (Call_CreateVirtualMachine ns vm) w st))"

definition getVM ::
  "string \<Rightarrow> 'w machineScope \<Rightarrow> 'w state
     \<Rightarrow> (VirtualMachine option \<times> LibraryError option) \<times> 'w state" where
  "getVM vmName sc st =
     (let ns = getMachineNamespace sc;
          opts = \<lparr>GetOptions_ResourceVersion = []\<rparr>;
          (r, w) = GetVirtualMachine (kubevirtClient sc) ns vmName opts (world st)
      in (r, called (Call_GetVirtualMachine ns vmName opts) w st))"

definition deleteVM ::
  "string \<Rightarrow> 'w machineScope \<Rightarrow> 'w state \<Rightarrow> LibraryError option \<times> 'w state" where
  "deleteVM vmName sc st =
     (let gracePeriod = 10;
          ns = getMachineNamespace sc;
          opts = \<lparr>GracePeriodSeconds = Some gracePeriod\<rparr>;
          (r, w) = DeleteVirtualMachine (kubevirtClient sc) ns vmName opts (world st)
      in (r, called (Call_DeleteVirtualMachine ns vmName opts) w st))"

definition updateVM ::
  "VirtualMachine \<Rightarrow> 'w machineScope \<Rightarrow> 'w state
     \<Rightarrow> (VirtualMachine option \<times> LibraryError option) \<times> 'w state" where
  "updateVM updatedVM sc st =
     (let ns = getMachineNamespace sc;
          (r, w) = UpdateVirtualMachine (kubevirtClient sc) ns updatedVM (world st)
      in (r, called (Call_UpdateVirtualMachine ns updatedVM) w st))"

text \<open>
  \<^verbatim>\<open>requeueIfInstancePending\<close> reads \<^verbatim>\<open>vm.Status.Ready\<close> through the pointer it is
  given: on nil that is a panic.
\<close>

definition requeueIfInstancePending ::
  "VirtualMachine option \<Rightarrow> string \<Rightarrow> error option outcome" where
  "requeueIfInstancePending vm machineName' =
     (case vm of
        None \<Rightarrow> Panic
      | Some v \<Rightarrow>
          if \<not> Ready (Status v)
          then Return (Some (RequeueAfterError (requeueAfterSeconds * Second)))
          else Return None)"

definition prepareMachineScope ::
  "'w manager \<Rightarrow> Machine \<Rightarrow> string \<Rightarrow> 'w state \<Rightarrow> (error + 'w machineScope) \<times> 'w state" where
  "prepareMachineScope m machine action st =
     (case newMachineScope m machine (world st) of
        (Inl machineScopeErr, w) \<Rightarrow> (Inl machineScopeErr, st\<lparr>world := w\<rparr>)
      | (Inr sc, w) \<Rightarrow> (Inr sc, st\<lparr>world := w\<rparr>))"

text \<open>
  The deferred closure of Create, Delete and Update: it calls \<^verbatim>\<open>patchMachine\<close> and, when
  that fails, assigns the patch error to the named result \<^verbatim>\<open>err\<close>. It runs on every way
  out of the body, a panic included, and a panic goes on after it.
\<close>

definition deferred_patchMachine ::
  "'w manager \<Rightarrow> 'w machineScope \<Rightarrow> error option outcome \<Rightarrow> 'w state
     \<Rightarrow> error option outcome \<times> 'w state" where
  "deferred_patchMachine m sc r st =
     (let (patchhMachineErr, w) = patchMachine m sc (world st);
          st' = called (Call_patchMachine (providerStatus sc)) w st
      in case r of
           Panic \<Rightarrow> (Panic, st')
         | Return err \<Rightarrow>
             (case patchhMachineErr of
                Some e \<Rightarrow> (Return (Some e), st')
              | None \<Rightarrow> (Return err, st')))"

text \<open>The body of Create after the deferral: its result, the scope and the state it leaves.\<close>

definition Create_body ::
  "'w manager \<Rightarrow> 'w machineScope \<Rightarrow> 'w state
     \<Rightarrow> error option outcome \<times> 'w machineScope \<times> 'w state" where
  "Create_body m sc st =
     (let ((vm, createVMErr), st1) = createVM (virtualMachine sc) sc st
      in case createVMErr of
           Some e \<Rightarrow>
             (Return (Some (Errorf ''failed to create virtual machine: '' (Library e))),
              setProviderStatus None (Failed (Error e)) sc, st1)
         | None \<Rightarrow>
             (let sc1 = setProviderID m vm sc;
                  (specificErr, sc2) = setMachineCloudProviderSpecifics m vm sc1
              in case specificErr of
                   Some e \<Rightarrow>
                     (Return (Some (Errorf ''failed to set machine cloud provider specifics: '' e)),
                      sc2, st1)
                 | None \<Rightarrow>
                     (let sc3 = setProviderStatus vm conditionSuccess sc2
                      in (requeueIfInstancePending vm (getMachineName sc3), sc3, st1))))"

definition Create :: "'w manager \<Rightarrow> Machine \<Rightarrow> 'w state \<Rightarrow> error option outcome \<times> 'w state" where
  "Create m machine st =
     (case prepareMachineScope m machine ''create'' st of
        (Inl machineScopeErr, st0) \<Rightarrow> (Return (Some machineScopeErr), st0)
      | (Inr sc, st0) \<Rightarrow>
          (let (r, sc', st1) = Create_body m sc st0
           in deferred_patchMachine m sc' r st1))"

definition Delete_body ::
  "'w manager \<Rightarrow> 'w machineScope \<Rightarrow> 'w state
     \<Rightarrow> error option outcome \<times> 'w machineScope \<times> 'w state" where
  "Delete_body m sc st =
     (let ((existingVM, existingVMErr), st1) = getVM (GetName (virtualMachine sc)) sc st
      in case existingVMErr of
           Some e \<Rightarrow>
             if Contains (Error e) ''not found''
             then (Return None, sc, st1)
             else (Return (Some (Library e)), sc, st1)
         | None \<Rightarrow>
             (case existingVM of
                None \<Rightarrow> (Return None, sc, st1)
              | Some _ \<Rightarrow>
                  (let (deleteVMErr, st2) = deleteVM (GetName (virtualMachine sc)) sc st1
                   in case deleteVMErr of
                        Some e \<Rightarrow>
                          (Return (Some (Errorf ''failed to delete VM: '' (Library e))), sc, st2)
                      | None \<Rightarrow> (Return None, sc, st2))))"

definition Delete :: "'w manager \<Rightarrow> Machine \<Rightarrow> 'w state \<Rightarrow> error option outcome \<times> 'w state" where
  "Delete m machine st =
     (case prepareMachineScope m machine ''delete'' st of
        (Inl machineScopeErr, st0) \<Rightarrow> (Return (Some machineScopeErr), st0)
      | (Inr sc, st0) \<Rightarrow>
          (let (r, sc', st1) = Delete_body m sc st0
           in deferred_patchMachine m sc' r st1))"

text \<open>
  The assignment of Update that carries the version token of the VM found by the lookup into
  the rendered specification.
\<close>

definition carryResourceVersion :: "VirtualMachine \<Rightarrow> 'w machineScope \<Rightarrow> 'w machineScope" where
  "carryResourceVersion existingVM sc =
     sc\<lparr>virtualMachine :=
          (virtualMachine sc)\<lparr>ObjectMeta :=
             (ObjectMeta (virtualMachine sc))\<lparr>ResourceVersion :=
                ResourceVersion (ObjectMeta existingVM)\<rparr>\<rparr>\<rparr>"

definition Update_body ::
  "'w manager \<Rightarrow> 'w machineScope \<Rightarrow> 'w state
     \<Rightarrow> error option outcome \<times> 'w machineScope \<times> 'w state" where
  "Update_body m sc st =
     (let ((existingVM, existingVMErr), st1) = getVM (GetName (virtualMachine sc)) sc st
      in case existingVMErr of
           Some e \<Rightarrow> (Return (Some (Library e)), sc, st1)
         | None \<Rightarrow>
             (case existingVM of
                None \<Rightarrow>
                  if updateAllowed sc
                  then (Return (Some (RequeueAfterError (requeueAfterSeconds * Second))), sc, st1)
                  else (Return (Some (RequeueAfterError (requeueAfterFatalSeconds * Second))),
                        setProviderStatus None conditionSuccess sc, st1)
              | Some existing \<Rightarrow>
                  (let sc1 = carryResourceVersion existing sc;
                       ((updatedVM, updateVMErr), st2) = updateVM (virtualMachine sc1) sc1 st1
                   in case updateVMErr of
                        Some e \<Rightarrow>
                          (Return (Some (Errorf ''failed to update VM: '' (Library e))), sc1, st2)
                      | None \<Rightarrow>
                          (let sc2 = setProviderID m updatedVM sc1;
                               (err, sc3) = setMachineCloudProviderSpecifics m updatedVM sc2
                           in case err of
                                Some e \<Rightarrow>
                                  (Return (Some (Errorf
                                     ''failed to set machine cloud provider specifics: '' e)),
                                   sc3, st2)
                              | None \<Rightarrow>
                                  (let sc4 = setProviderStatus updatedVM conditionSuccess sc3;
                                       ((getUpdatedVM, getUpdatedVMErr), st3) =
                                          getVM (GetName (virtualMachine sc4)) sc4 st2;
                                       getUpdatedVM' =
                                          (if getUpdatedVMErr \<noteq> None then updatedVM
                                           else getUpdatedVM)
                                   in (requeueIfInstancePending getUpdatedVM'
                                         (getMachineName sc4), sc4, st3))))))"

definition Update :: "'w manager \<Rightarrow> Machine \<Rightarrow> 'w state \<Rightarrow> error option outcome \<times> 'w state" where
  "Update m machine st =
     (case prepareMachineScope m machine ''update'' st of
        (Inl machineScopeErr, st0) \<Rightarrow> (Return (Some machineScopeErr), st0)
      | (Inr sc, st0) \<Rightarrow>
          (let (r, sc', st1) = Update_body m sc st0
           in deferred_patchMachine m sc' r st1))"

definition Exists ::
  "'w manager \<Rightarrow> Machine \<Rightarrow> 'w state \<Rightarrow> (bool \<times> error option) \<times> 'w state" where
  "Exists m machine st =
     (case prepareMachineScope m machine ''check exists'' st of
        (Inl machineScopeErr, st0) \<Rightarrow> ((False, Some machineScopeErr), st0)
      | (Inr sc, st0) \<Rightarrow>
          (let ((existingVM, existingVMErr), st1) = getVM (GetName (virtualMachine sc)) sc st0
           in case existingVMErr of
                Some e \<Rightarrow>
                  if Contains (Error e) ''not found''
                  then ((False, None), st1)
                  else ((False, Some (Library e)), st1)
              | None \<Rightarrow>
                  (case existingVM of
                     None \<Rightarrow> ((False, None), st1)
                   | Some _ \<Rightarrow> ((True, map_option Library existingVMErr), st1))))"

section \<open>Package kubevirt: the client builder\<close>

definition underKubeConfig :: string where
  "underKubeConfig = ''kubeconfig''"

record Secret =
  Data :: "string \<rightharpoonup> bytes"

text \<open>
  The collaborators of \<^verbatim>\<open>New\<close>: the method of the over-cluster Kubernetes client that
  fetches the credentials secret, and the four library functions that build the two clients
  from the kubeconfig. The values they build are opaque (\<open>'cc\<close>, \<open>'kv\<close>, \<open>'rc\<close>, \<open>'kc\<close>).
\<close>

record 'w kubernetesClient =
  UserDataSecret :: "string \<Rightarrow> string \<Rightarrow> 'w \<Rightarrow> (Secret option \<times> LibraryError option) \<times> 'w"

record ('cc, 'kv, 'rc, 'kc) clientLibraries =
  NewClientConfigFromBytes :: "bytes \<Rightarrow> 'cc \<times> LibraryError option"
  GetKubevirtClientFromClientConfig :: "'cc \<Rightarrow> 'kv \<times> LibraryError option"
  BuildConfigFromFlags :: "string \<Rightarrow> string \<Rightarrow> 'rc \<times> LibraryError option"
  NewForConfig :: "'rc \<Rightarrow> 'kc \<times> LibraryError option"

record ('kv, 'kc) client =
  client_kubevirtClient :: 'kv
  client_kuberentesClient :: 'kc

text \<open>
  \<^verbatim>\<open>New\<close>. The formatted messages are written out: \<^verbatim>\<open>%s\<close> and \<^verbatim>\<open>%v\<close> of a string
  are the string, \<^verbatim>\<open>%v\<close> of an error is its text, and in the last message the second
  argument is the local byte slice that shadows the constant, nil on that path, printed
  \<^verbatim>\<open>[]\<close>. Reading \<^verbatim>\<open>Data\<close> of a nil secret is a panic.
\<close>

definition New ::
  "('cc, 'kv, 'rc, 'kc) clientLibraries \<Rightarrow> 'w kubernetesClient \<Rightarrow> string \<Rightarrow> string \<Rightarrow> 'w state
     \<Rightarrow> (('kv, 'kc) client option \<times> error option) outcome \<times> 'w state" where
  "New lib overKubernetesClient secretName namespace st =
     (if secretName = []
      then (Return (None, Some (InvalidMachineConfiguration
              ''KubeVirt credentials secret - Invalid empty secretName'')), st)
      else if namespace = []
      then (Return (None, Some (InvalidMachineConfiguration
              ''KubeVirt credentials secret - Invalid empty namespace'')), st)
      else
        (let ((userDataSecret, getSecretErr), w) =
                UserDataSecret overKubernetesClient secretName namespace (world st);
             st1 = called (Call_UserDataSecret secretName namespace) w st
         in case getSecretErr of
              Some e \<Rightarrow>
                if IsNotFound e
                then (Return (None, Some (InvalidMachineConfiguration
                        (''KubeVirt credentials secret '' @ namespace @ ''/'' @ secretName
                           @ '': '' @ Error e @ '' not found''))), st1)
                else (Return (None, Some (Library e)), st1)
            | None \<Rightarrow>
                (case userDataSecret of
                   None \<Rightarrow> (Panic, st1)
                 | Some secret \<Rightarrow>
                     (case Data secret underKubeConfig of
                        None \<Rightarrow>
                          (Return (None, Some (InvalidMachineConfiguration
                             (''KubeVirt credentials secret '' @ secretName
                                @ '' did not contain key '' @ ''[]''))), st1)
                      | Some kubeconfig \<Rightarrow>
                          (let (kubevirtConfig, err) = NewClientConfigFromBytes lib kubeconfig;
                               st2 = called (Call_NewClientConfigFromBytes kubeconfig) (world st1) st1
                           in case err of
                                Some e \<Rightarrow> (Return (None, Some (Library e)), st2)
                              | None \<Rightarrow>
                                  (let (kubevirtClient', getClientErr) =
                                          GetKubevirtClientFromClientConfig lib kubevirtConfig;
                                       st3 = called Call_GetKubevirtClientFromClientConfig
                                               (world st2) st2
                                   in case getClientErr of
                                        Some e \<Rightarrow> (Return (None, Some (Library e)), st3)
                                      | None \<Rightarrow>
                                          (let (kubernetesConfig, err2) =
                                                  BuildConfigFromFlags lib [] kubeconfig;
                                               st4 = called (Call_BuildConfigFromFlags [] kubeconfig)
                                                       (world st3) st3
                                           in case err2 of
                                                Some e \<Rightarrow> (Return (None, Some (Library e)), st4)
                                              | None \<Rightarrow>
                                                  (let (kubernetesClient', err3) =
                                                          NewForConfig lib kubernetesConfig;
                                                       st5 = called Call_NewForConfig (world st4) st4
                                                   in case err3 of
                                                        Some e \<Rightarrow>
                                                          (Return (None, Some (Library e)), st5)
                                                      | None \<Rightarrow>
                                                          (Return
                                                             (Some \<lparr>client_kubevirtClient =
                                                                      kubevirtClient',
                                                                    client_kuberentesClient =
                                                                      kubernetesClient'\<rparr>,
                                                              None), st5)))))))))"

section \<open>Auxiliary definitions for the statements\<close>

text \<open>The number of status patch-backs in a record of calls.\<close>

fun is_patchMachine :: "call \<Rightarrow> bool" where
  "is_patchMachine (Call_patchMachine _) = True"
| "is_patchMachine _ = False"

definition patchMachine_calls :: "call list \<Rightarrow> nat" where
  "patchMachine_calls tr = length (filter is_patchMachine tr)"

text \<open>
  Test doubles with canned answers, on which the theorems are instantiated. The world of
  the fake client counts the lookups made so far, so that the answer to the first lookup
  and to a later one can differ.
\<close>

definition renderedVM :: VirtualMachine where
  "renderedVM =
     \<lparr>ObjectMeta = \<lparr>Name = ''worker-0'', Namespace = ''cluster'', ResourceVersion = []\<rparr>,
      Status = \<lparr>Created = False, Ready = False\<rparr>\<rparr>"

definition remoteVM :: "string \<Rightarrow> bool \<Rightarrow> VirtualMachine" where
  "remoteVM version ready =
     \<lparr>ObjectMeta = \<lparr>Name = ''worker-0'', Namespace = ''cluster'', ResourceVersion = version\<rparr>,
      Status = \<lparr>Created = True, Ready = ready\<rparr>\<rparr>"

definition fakeClient ::
  "VirtualMachine option \<times> LibraryError option \<Rightarrow> LibraryError option
     \<Rightarrow> (nat \<Rightarrow> VirtualMachine option \<times> LibraryError option)
     \<Rightarrow> VirtualMachine option \<times> LibraryError option \<Rightarrow> nat Client" where
  "fakeClient createAnswer deleteAnswer getAnswer updateAnswer =
     \<lparr>CreateVirtualMachine = (\<lambda>ns vm w. (createAnswer, w)),
      DeleteVirtualMachine = (\<lambda>ns n opts w. (deleteAnswer, w)),
      GetVirtualMachine = (\<lambda>ns n opts w. (getAnswer w, Suc w)),
      UpdateVirtualMachine = (\<lambda>ns vm w. (updateAnswer, w))\<rparr>"

definition fakeScope :: "nat Client \<Rightarrow> bool \<Rightarrow> nat machineScope" where
  "fakeScope c allowed =
     \<lparr>machineName = ''worker-0'', machineNamespace = ''cluster'', virtualMachine = renderedVM,
      kubevirtClient = c, providerStatus = \<lparr>condition = None, vmFields = None\<rparr>,
      updateAllowed = allowed\<rparr>"

definition fakeManager ::
  "error + nat machineScope \<Rightarrow> error option \<Rightarrow> error option \<Rightarrow> nat manager" where
  "fakeManager scopeAnswer patchAnswer specificsAnswer =
     \<lparr>newMachineScope = (\<lambda>machine w. (scopeAnswer, w)),
      patchMachine = (\<lambda>sc w. (patchAnswer, w)),
      setProviderID = (\<lambda>vm sc. sc),
      setMachineCloudProviderSpecifics = (\<lambda>vm sc. (specificsAnswer, sc))\<rparr>"

text \<open>A manager whose patch-back leaves a mark on the world: it adds 100 to it.\<close>

definition patchingManager ::
  "error + nat machineScope \<Rightarrow> error option \<Rightarrow> error option \<Rightarrow> nat manager" where
  "patchingManager scopeAnswer patchAnswer specificsAnswer =
     \<lparr>newMachineScope = (\<lambda>machine w. (scopeAnswer, w)),
      patchMachine = (\<lambda>sc w. (patchAnswer, w + 100)),
      setProviderID = (\<lambda>vm sc. sc),
      setMachineCloudProviderSpecifics = (\<lambda>vm sc. (specificsAnswer, sc))\<rparr>"

definition machine0 :: Machine where
  "machine0 = \<lparr>Machine_Name = ''worker-0'', Machine_Namespace = ''cluster''\<rparr>"

definition state0 :: "nat state" where
  "state0 = \<lparr>world = 0, trace = []\<rparr>"

text \<open>Canned errors and the lookup call of the test doubles.\<close>

definition admissionDenied :: LibraryError where
  "admissionDenied = LibraryError ''admission webhook denied the request'' False"

definition vmNotFound :: LibraryError where
  "vmNotFound = LibraryError ''virtualmachine worker-0 not found'' True"

definition patchFailed :: error where
  "patchFailed = Library (LibraryError ''the object has been modified'' False)"

definition lookupCall :: call where
  "lookupCall = Call_GetVirtualMachine ''cluster'' ''worker-0'' \<lparr>GetOptions_ResourceVersion = []\<rparr>"

definition fakeLibraries :: "LibraryError option \<Rightarrow> (unit, unit, unit, unit) clientLibraries" where
  "fakeLibraries parseAnswer =
     \<lparr>NewClientConfigFromBytes = (\<lambda>b. ((), parseAnswer)),
      GetKubevirtClientFromClientConfig = (\<lambda>c. ((), None)),
      BuildConfigFromFlags = (\<lambda>u b. ((), None)),
      NewForConfig = (\<lambda>c. ((), None))\<rparr>"

definition fakeKubernetesClient ::
  "Secret option \<times> LibraryError option \<Rightarrow> nat kubernetesClient" where
  "fakeKubernetesClient secretAnswer = \<lparr>UserDataSecret = (\<lambda>s n w. (secretAnswer, w))\<rparr>"

text \<open>
  The configuration cases of the client builder, in the words of the specification: the
  secret name is empty, the namespace is empty, the secret is not found, or the secret does
  not hold the key \<^verbatim>\<open>kubeconfig\<close>.
\<close>

definition configurationError :: "'w kubernetesClient \<Rightarrow> string \<Rightarrow> string \<Rightarrow> 'w \<Rightarrow> bool" where
  "configurationError k secretName namespace w \<longleftrightarrow>
     secretName = [] \<or> namespace = [] \<or>
     (case fst (UserDataSecret k secretName namespace w) of
        (_, Some e) \<Rightarrow> IsNotFound e
      | (None, None) \<Rightarrow> False
      | (Some secret, None) \<Rightarrow> Data secret underKubeConfig = None)"

section \<open>Auxiliary lemmas\<close>

text \<open>\<^const>\<open>Contains\<close> is the substring relation.\<close>

lemma Contains_iff: "Contains s substr \<longleftrightarrow> (\<exists>a b. s = a @ substr @ b)"
proof (induction s)
  case Nil
  then show ?case by auto
next
  case (Cons c s)
  show ?case
  proof
    assume "Contains (c # s) substr"
    then consider "prefix substr (c # s)" | "Contains s substr" by auto
    then show "\<exists>a b. c # s = a @ substr @ b"
    proof cases
      case 1
      then obtain b where "c # s = substr @ b" by (auto simp: prefix_def)
      then have "c # s = [] @ substr @ b" by simp
      then show ?thesis by blast
    next
      case 2
      with Cons.IH obtain a b where "s = a @ substr @ b" by blast
      then have "c # s = (c # a) @ substr @ b" by simp
      then show ?thesis by blast
    qed
  next
    assume "\<exists>a b. c # s = a @ substr @ b"
    then obtain a b where ab: "c # s = a @ substr @ b" by blast
    show "Contains (c # s) substr"
    proof (cases a)
      case Nil
      with ab have "prefix substr (c # s)" by (simp add: prefix_def)
      then show ?thesis by simp
    next
      case (Cons x a')
      with ab have "s = a' @ substr @ b" by simp
      with Cons.IH have "Contains s substr" by blast
      then show ?thesis by simp
    qed
  qed
qed

text \<open>Each client call adds exactly its own entry to the record of calls.\<close>

lemma getVM_trace:
  "getVM n sc st = (r, st') \<Longrightarrow>
     trace st' = trace st @
       [Call_GetVirtualMachine (machineNamespace sc) n \<lparr>GetOptions_ResourceVersion = []\<rparr>]"
  by (auto simp: getVM_def called_def getMachineNamespace_def Let_def split: prod.splits)

lemma createVM_trace:
  "createVM vm sc st = (r, st') \<Longrightarrow>
     trace st' = trace st @ [Call_CreateVirtualMachine (machineNamespace sc) vm]"
  by (auto simp: createVM_def called_def getMachineNamespace_def Let_def split: prod.splits)

lemma updateVM_trace:
  "updateVM vm sc st = (r, st') \<Longrightarrow>
     trace st' = trace st @ [Call_UpdateVirtualMachine (machineNamespace sc) vm]"
  by (auto simp: updateVM_def called_def getMachineNamespace_def Let_def split: prod.splits)

lemma deleteVM_trace:
  "deleteVM n sc st = (r, st') \<Longrightarrow>
     trace st' = trace st @
       [Call_DeleteVirtualMachine (machineNamespace sc) n \<lparr>GracePeriodSeconds = Some 10\<rparr>]"
  by (auto simp: deleteVM_def called_def getMachineNamespace_def Let_def split: prod.splits)

lemma prepareMachineScope_trace:
  "prepareMachineScope m machine action st = (r, st') \<Longrightarrow> trace st' = trace st"
  by (auto simp: prepareMachineScope_def split: prod.splits sum.splits)

lemma prepareMachineScope_result:
  "fst (prepareMachineScope m machine action st) = fst (newMachineScope m machine (world st))"
  by (auto simp: prepareMachineScope_def split: prod.splits sum.splits)

text \<open>The bodies of the three operations make no patch-back themselves.\<close>

lemma Create_body_patch_calls:
  "Create_body m sc st = (r, sc', st') \<Longrightarrow>
     patchMachine_calls (trace st') = patchMachine_calls (trace st)"
  by (auto simp: Create_body_def Let_def patchMachine_calls_def dest!: createVM_trace
      split: prod.splits option.splits)

lemma Delete_body_patch_calls:
  "Delete_body m sc st = (r, sc', st') \<Longrightarrow>
     patchMachine_calls (trace st') = patchMachine_calls (trace st)"
  by (auto simp: Delete_body_def Let_def patchMachine_calls_def
      dest!: getVM_trace deleteVM_trace split: prod.splits option.splits if_splits)

lemma Update_body_patch_calls:
  "Update_body m sc st = (r, sc', st') \<Longrightarrow>
     patchMachine_calls (trace st') = patchMachine_calls (trace st)"
  by (auto simp: Update_body_def Let_def patchMachine_calls_def
      dest!: getVM_trace updateVM_trace split: prod.splits option.splits if_splits)

lemma deferred_patchMachine_calls:
  "deferred_patchMachine m sc r st = (r', st') \<Longrightarrow>
     patchMachine_calls (trace st') = Suc (patchMachine_calls (trace st))"
  by (auto simp: deferred_patchMachine_def Let_def called_def patchMachine_calls_def
      split: prod.splits option.splits outcome.splits)

text \<open>\<^const>\<open>Contains\<close> agrees with the library's contiguous-sublist relation.\<close>

lemma Contains_sublist: "Contains s substr \<longleftrightarrow> sublist substr s"
  by (auto simp: Contains_iff sublist_def)

text \<open>How the operations unfold once the scope is constructed, and what the deferral does.\<close>

lemma prepareMachineScope_Inr:
  "newMachineScope m machine (world st) = (Inr sc, w0) \<Longrightarrow>
     prepareMachineScope m machine action st = (Inr sc, st\<lparr>world := w0\<rparr>)"
  by (simp add: prepareMachineScope_def)

lemma deferred_patchMachine_result:
  "fst (deferred_patchMachine m sc r st) =
     (case r of
        Panic \<Rightarrow> Panic
      | Return err \<Rightarrow>
          (case fst (patchMachine m sc (world st)) of
             Some e \<Rightarrow> Return (Some e)
           | None \<Rightarrow> Return err))"
  by (simp add: deferred_patchMachine_def Let_def split: prod.splits outcome.splits option.splits)

lemma deferred_patchMachine_trace:
  "trace (snd (deferred_patchMachine m sc r st)) = trace st @ [Call_patchMachine (providerStatus sc)]"
  by (simp add: deferred_patchMachine_def Let_def called_def
      split: prod.splits outcome.splits option.splits)

lemma Create_unfold:
  "newMachineScope m machine (world st) = (Inr sc, w0) \<Longrightarrow>
   Create_body m sc (st\<lparr>world := w0\<rparr>) = (r, sc', st1) \<Longrightarrow>
     Create m machine st = deferred_patchMachine m sc' r st1"
  by (simp add: Create_def prepareMachineScope_Inr)

lemma Delete_unfold:
  "newMachineScope m machine (world st) = (Inr sc, w0) \<Longrightarrow>
   Delete_body m sc (st\<lparr>world := w0\<rparr>) = (r, sc', st1) \<Longrightarrow>
     Delete m machine st = deferred_patchMachine m sc' r st1"
  by (simp add: Delete_def prepareMachineScope_Inr)

lemma Update_unfold:
  "newMachineScope m machine (world st) = (Inr sc, w0) \<Longrightarrow>
   Update_body m sc (st\<lparr>world := w0\<rparr>) = (r, sc', st1) \<Longrightarrow>
     Update m machine st = deferred_patchMachine m sc' r st1"
  by (simp add: Update_def prepareMachineScope_Inr)

lemma Delete_body_scope: "Delete_body m sc st = (r, sc', st') \<Longrightarrow> sc' = sc"
  by (auto simp: Delete_body_def Let_def split: prod.splits option.splits if_splits)

lemma requeueIfInstancePending_Some:
  "requeueIfInstancePending (Some vm) n =
     Return (if Ready (Status vm) then None else Some (RequeueAfterError (20 * Second)))"
  by (simp add: requeueIfInstancePending_def requeueAfterSeconds_def)

text \<open>A lookup error in the bodies of Update and Delete; where a panic comes from.\<close>

lemma Update_body_lookup_error:
  "getVM (GetName (virtualMachine sc)) sc st = ((vm, Some e), st1) \<Longrightarrow>
     Update_body m sc st = (Return (Some (Library e)), sc, st1)"
  by (simp add: Update_body_def)

lemma Delete_body_lookup_error:
  "getVM (GetName (virtualMachine sc)) sc st = ((vm, Some e), st1) \<Longrightarrow>
     Delete_body m sc st =
       (if sublist ''not found'' (Error e) then Return None else Return (Some (Library e)), sc, st1)"
  by (simp add: Delete_body_def Contains_sublist)

lemma requeueIfInstancePending_Panic:
  "requeueIfInstancePending vm n = Panic \<longleftrightarrow> vm = None"
  by (simp add: requeueIfInstancePending_def split: option.splits)

lemma deferred_patchMachine_Panic:
  "fst (deferred_patchMachine m sc r st) = Panic \<longleftrightarrow> r = Panic"
  by (simp add: deferred_patchMachine_result split: outcome.splits option.splits)

text \<open>
  The wrappers of the client calls and the deferral, in terms of the client's and the
  manager's own functions applied to the world.
\<close>

lemma getVM_applied:
  "GetVirtualMachine (kubevirtClient sc) (machineNamespace sc) n
     \<lparr>GetOptions_ResourceVersion = []\<rparr> (world st) = (r, w) \<Longrightarrow>
   getVM n sc st =
     (r, \<lparr>world = w, trace = trace st @
           [Call_GetVirtualMachine (machineNamespace sc) n \<lparr>GetOptions_ResourceVersion = []\<rparr>]\<rparr>)"
  by (simp add: getVM_def called_def getMachineNamespace_def)

lemma createVM_applied:
  "CreateVirtualMachine (kubevirtClient sc) (machineNamespace sc) vm (world st) = (r, w) \<Longrightarrow>
   createVM vm sc st =
     (r, \<lparr>world = w, trace = trace st @ [Call_CreateVirtualMachine (machineNamespace sc) vm]\<rparr>)"
  by (simp add: createVM_def called_def getMachineNamespace_def)

lemma updateVM_applied:
  "UpdateVirtualMachine (kubevirtClient sc) (machineNamespace sc) vm (world st) = (r, w) \<Longrightarrow>
   updateVM vm sc st =
     (r, \<lparr>world = w, trace = trace st @ [Call_UpdateVirtualMachine (machineNamespace sc) vm]\<rparr>)"
  by (simp add: updateVM_def called_def getMachineNamespace_def)

lemma deleteVM_applied:
  "DeleteVirtualMachine (kubevirtClient sc) (machineNamespace sc) n
     \<lparr>GracePeriodSeconds = Some 10\<rparr> (world st) = (r, w) \<Longrightarrow>
   deleteVM n sc st =
     (r, \<lparr>world = w, trace = trace st @
           [Call_DeleteVirtualMachine (machineNamespace sc) n \<lparr>GracePeriodSeconds = Some 10\<rparr>]\<rparr>)"
  by (simp add: deleteVM_def called_def getMachineNamespace_def)

lemma deferred_patchMachine_applied:
  "deferred_patchMachine m sc r st =
     (case r of
        Panic \<Rightarrow> Panic
      | Return err \<Rightarrow>
          Return (case fst (patchMachine m sc (world st)) of Some e \<Rightarrow> Some e | None \<Rightarrow> err),
      \<lparr>world = snd (patchMachine m sc (world st)),
       trace = trace st @ [Call_patchMachine (providerStatus sc)]\<rparr>)"
  by (simp add: deferred_patchMachine_def Let_def called_def
      split: prod.splits outcome.splits option.splits)

lemma carryResourceVersion_fields:
  "kubevirtClient (carryResourceVersion ex sc) = kubevirtClient sc"
  "machineNamespace (carryResourceVersion ex sc) = machineNamespace sc"
  "providerStatus (carryResourceVersion ex sc) = providerStatus sc"
  "virtualMachine (carryResourceVersion ex sc) =
     (virtualMachine sc)\<lparr>ObjectMeta :=
        (ObjectMeta (virtualMachine sc))\<lparr>ResourceVersion := ResourceVersion (ObjectMeta ex)\<rparr>\<rparr>"
  by (simp_all add: carryResourceVersion_def)

lemmas fake_defs = fakeClient_def fakeScope_def fakeManager_def machine0_def state0_def
  renderedVM_def remoteVM_def

lemmas op_defs = Create_def Delete_def Update_def Exists_def Create_body_def Delete_body_def
  Update_body_def prepareMachineScope_def deferred_patchMachine_def createVM_def getVM_def
  deleteVM_def updateVM_def called_def getMachineName_def getMachineNamespace_def
  setProviderStatus_def requeueIfInstancePending_def carryResourceVersion_def GetName_def
  conditionSuccess_def

lemmas body_defs = Create_body_def Delete_body_def Update_body_def prepareMachineScope_def
  deferred_patchMachine_def createVM_def getVM_def deleteVM_def updateVM_def called_def
  getMachineName_def getMachineNamespace_def setProviderStatus_def requeueIfInstancePending_def
  carryResourceVersion_def GetName_def conditionSuccess_def

lemmas wit_defs = fake_defs body_defs admissionDenied_def vmNotFound_def patchFailed_def
  lookupCall_def Contains_sublist [symmetric]

lemmas wit2_defs = wit_defs patchingManager_def

section \<open>The status patch-back\<close>

text \<open>
  C1. Every invocation of Create, Delete or Update whose machine scope is constructed calls
  patchMachine exactly once, whatever the way out of the body (success, error, requeue
  signal, panic); when the construction of the scope fails, it is not called at all.
  When the construction fails, the state the operation leaves is the one the constructor
  left. When it succeeds, the world the operation leaves is the world of the manager's
  patchMachine applied once, to the scope and the world the body left, and the record of
  calls is the body's followed by that one patch-back. The bodies do not depend on the
  manager's patchMachine at all, and make no patch-back. Counted on the record of calls, the
  patch-backs grow by one in the first case and by nothing in the second.
\<close>

theorem patchMachine_exactly_once:
  "(newMachineScope m machine (world st) = (Inl e, w0) \<longrightarrow>
      snd (Create m machine st) = st\<lparr>world := w0\<rparr>
      \<and> snd (Delete m machine st) = st\<lparr>world := w0\<rparr>
      \<and> snd (Update m machine st) = st\<lparr>world := w0\<rparr>)
   \<and> (newMachineScope m machine (world st) = (Inr sc, w0) \<longrightarrow>
      (Create_body m sc (st\<lparr>world := w0\<rparr>) = (r, sc', st1) \<longrightarrow>
         snd (Create m machine st) =
           \<lparr>world = snd (patchMachine m sc' (world st1)),
            trace = trace st1 @ [Call_patchMachine (providerStatus sc')]\<rparr>
         \<and> patchMachine_calls (trace st1) = patchMachine_calls (trace st))
      \<and> (Delete_body m sc (st\<lparr>world := w0\<rparr>) = (r, sc', st1) \<longrightarrow>
         snd (Delete m machine st) =
           \<lparr>world = snd (patchMachine m sc' (world st1)),
            trace = trace st1 @ [Call_patchMachine (providerStatus sc')]\<rparr>
         \<and> patchMachine_calls (trace st1) = patchMachine_calls (trace st))
      \<and> (Update_body m sc (st\<lparr>world := w0\<rparr>) = (r, sc', st1) \<longrightarrow>
         snd (Update m machine st) =
           \<lparr>world = snd (patchMachine m sc' (world st1)),
            trace = trace st1 @ [Call_patchMachine (providerStatus sc')]\<rparr>
         \<and> patchMachine_calls (trace st1) = patchMachine_calls (trace st)))
   \<and> Create_body (m\<lparr>patchMachine := p\<rparr>) sc st = Create_body m sc st
   \<and> Delete_body (m\<lparr>patchMachine := p\<rparr>) sc st = Delete_body m sc st
   \<and> Update_body (m\<lparr>patchMachine := p\<rparr>) sc st = Update_body m sc st
   \<and> patchMachine_calls (trace (snd (Create m machine st))) =
     patchMachine_calls (trace st) +
       (case fst (newMachineScope m machine (world st)) of Inl _ \<Rightarrow> 0 | Inr _ \<Rightarrow> 1)
   \<and> patchMachine_calls (trace (snd (Delete m machine st))) =
     patchMachine_calls (trace st) +
       (case fst (newMachineScope m machine (world st)) of Inl _ \<Rightarrow> 0 | Inr _ \<Rightarrow> 1)
   \<and> patchMachine_calls (trace (snd (Update m machine st))) =
     patchMachine_calls (trace st) +
       (case fst (newMachineScope m machine (world st)) of Inl _ \<Rightarrow> 0 | Inr _ \<Rightarrow> 1)"
proof -
  have fail: "snd (Create m machine st) = st\<lparr>world := w0\<rparr>
      \<and> snd (Delete m machine st) = st\<lparr>world := w0\<rparr>
      \<and> snd (Update m machine st) = st\<lparr>world := w0\<rparr>"
    if "newMachineScope m machine (world st) = (Inl e, w0)"
    using that by (simp add: Create_def Delete_def Update_def prepareMachineScope_def)
  have c: "snd (Create m machine st) =
           \<lparr>world = snd (patchMachine m sc' (world st1)),
            trace = trace st1 @ [Call_patchMachine (providerStatus sc')]\<rparr>
         \<and> patchMachine_calls (trace st1) = patchMachine_calls (trace st)"
    if "newMachineScope m machine (world st) = (Inr sc, w0)"
      and "Create_body m sc (st\<lparr>world := w0\<rparr>) = (r, sc', st1)"
    using Create_unfold [OF that] Create_body_patch_calls [OF that(2)]
    by (simp add: deferred_patchMachine_applied)
  have d: "snd (Delete m machine st) =
           \<lparr>world = snd (patchMachine m sc' (world st1)),
            trace = trace st1 @ [Call_patchMachine (providerStatus sc')]\<rparr>
         \<and> patchMachine_calls (trace st1) = patchMachine_calls (trace st)"
    if "newMachineScope m machine (world st) = (Inr sc, w0)"
      and "Delete_body m sc (st\<lparr>world := w0\<rparr>) = (r, sc', st1)"
    using Delete_unfold [OF that] Delete_body_patch_calls [OF that(2)]
    by (simp add: deferred_patchMachine_applied)
  have u: "snd (Update m machine st) =
           \<lparr>world = snd (patchMachine m sc' (world st1)),
            trace = trace st1 @ [Call_patchMachine (providerStatus sc')]\<rparr>
         \<and> patchMachine_calls (trace st1) = patchMachine_calls (trace st)"
    if "newMachineScope m machine (world st) = (Inr sc, w0)"
      and "Update_body m sc (st\<lparr>world := w0\<rparr>) = (r, sc', st1)"
    using Update_unfold [OF that] Update_body_patch_calls [OF that(2)]
    by (simp add: deferred_patchMachine_applied)
  have ind: "Create_body (m\<lparr>patchMachine := p\<rparr>) sc st = Create_body m sc st"
    "Delete_body (m\<lparr>patchMachine := p\<rparr>) sc st = Delete_body m sc st"
    "Update_body (m\<lparr>patchMachine := p\<rparr>) sc st = Update_body m sc st"
    by (simp_all add: Create_body_def Delete_body_def Update_body_def Let_def
        split: prod.splits option.splits)
  obtain x w where n: "newMachineScope m machine (world st) = (x, w)"
    by (cases "newMachineScope m machine (world st)") auto
  have cnt: "patchMachine_calls (trace (snd (Create m machine st))) =
     patchMachine_calls (trace st) +
       (case fst (newMachineScope m machine (world st)) of Inl _ \<Rightarrow> 0 | Inr _ \<Rightarrow> 1)
   \<and> patchMachine_calls (trace (snd (Delete m machine st))) =
     patchMachine_calls (trace st) +
       (case fst (newMachineScope m machine (world st)) of Inl _ \<Rightarrow> 0 | Inr _ \<Rightarrow> 1)
   \<and> patchMachine_calls (trace (snd (Update m machine st))) =
     patchMachine_calls (trace st) +
       (case fst (newMachineScope m machine (world st)) of Inl _ \<Rightarrow> 0 | Inr _ \<Rightarrow> 1)"
  proof (cases x)
    case (Inl e')
    with n show ?thesis
      by (simp add: Create_def Delete_def Update_def prepareMachineScope_def)
  next
    case (Inr s)
    with n have sc: "newMachineScope m machine (world st) = (Inr s, w)" by simp
    obtain r1 s1 t1 where b1: "Create_body m s (st\<lparr>world := w\<rparr>) = (r1, s1, t1)"
      by (cases "Create_body m s (st\<lparr>world := w\<rparr>)") auto
    obtain r2 s2 t2 where b2: "Delete_body m s (st\<lparr>world := w\<rparr>) = (r2, s2, t2)"
      by (cases "Delete_body m s (st\<lparr>world := w\<rparr>)") auto
    obtain r3 s3 t3 where b3: "Update_body m s (st\<lparr>world := w\<rparr>) = (r3, s3, t3)"
      by (cases "Update_body m s (st\<lparr>world := w\<rparr>)") auto
    show ?thesis
      using Create_unfold [OF sc b1] Delete_unfold [OF sc b2] Update_unfold [OF sc b3]
        Create_body_patch_calls [OF b1] Delete_body_patch_calls [OF b2]
        Update_body_patch_calls [OF b3] sc
      by (simp add: deferred_patchMachine_applied patchMachine_calls_def)
  qed
  from fail c d u ind cnt show ?thesis by blast
qed

text \<open>
  An instance: the scope is constructed, the client refuses the creation and the patch-back
  itself fails; the world carries the mark of one patch-back. With a scope that cannot be
  constructed, the state is untouched.
\<close>

theorem patchMachine_exactly_once_witness:
  "snd (Create
      (patchingManager
         (Inr (fakeScope (fakeClient (None, Some admissionDenied) None
                 (\<lambda>n. (None, None)) (None, None)) False))
         (Some patchFailed) None)
      machine0 state0) =
     \<lparr>world = 100,
      trace = [Call_CreateVirtualMachine ''cluster'' renderedVM,
               Call_patchMachine
                 \<lparr>condition = Some (Failed ''admission webhook denied the request''),
                  vmFields = None\<rparr>]\<rparr>
   \<and> snd (Create
      (patchingManager (Inl (InvalidMachineConfiguration ''no secret'')) None None)
      machine0 state0) = state0"
  using patchMachine_exactly_once
     [where m = "patchingManager
         (Inr (fakeScope (fakeClient (None, Some admissionDenied) None
                 (\<lambda>n. (None, None)) (None, None)) False))
         (Some patchFailed) None"
       and machine = machine0 and st = state0
       and sc = "fakeScope (fakeClient (None, Some admissionDenied) None
                 (\<lambda>n. (None, None)) (None, None)) False"
       and ?w0.0 = 0
       and r = "Return (Some (Errorf ''failed to create virtual machine: ''
                  (Library admissionDenied)))"
       and sc' = "setProviderStatus None (Failed (Error admissionDenied))
                   (fakeScope (fakeClient (None, Some admissionDenied) None
                      (\<lambda>n. (None, None)) (None, None)) False)"
       and ?st1.0 = "\<lparr>world = 0, trace = [Call_CreateVirtualMachine ''cluster'' renderedVM]\<rparr>"]
    patchMachine_exactly_once
     [where m = "patchingManager (Inl (InvalidMachineConfiguration ''no secret'')) None None"
       and machine = machine0 and st = state0
       and e = "InvalidMachineConfiguration ''no secret''" and ?w0.0 = 0]
  by (simp add: wit2_defs)

text \<open>
  C2, as stated, fails: the deferred closure assigns the patch error to the result whenever
  the patch-back fails, whatever the body was returning. Here the client refuses the
  creation, the body returns the wrapped creation error, the patch-back fails too, and Create
  returns the patch error: the earlier error is masked.
\<close>

theorem patch_error_masks_earlier_error_counterexample:
  "fst (Create_body
      (fakeManager
         (Inr (fakeScope (fakeClient (None, Some (LibraryError ''boom'' False)) None
                 (\<lambda>n. (None, None)) (None, None)) False))
         (Some (Library (LibraryError ''patch failed'' False))) None)
      (fakeScope (fakeClient (None, Some (LibraryError ''boom'' False)) None
                 (\<lambda>n. (None, None)) (None, None)) False)
      state0)
     = Return (Some (Errorf ''failed to create virtual machine: ''
                      (Library (LibraryError ''boom'' False))))
   \<and> fst (Create
      (fakeManager
         (Inr (fakeScope (fakeClient (None, Some (LibraryError ''boom'' False)) None
                 (\<lambda>n. (None, None)) (None, None)) False))
         (Some (Library (LibraryError ''patch failed'' False))) None)
      machine0 state0)
     = Return (Some (Library (LibraryError ''patch failed'' False)))"
  by (simp add: fake_defs op_defs)

text \<open>
  C2, amended. For Create, Delete and Update with a constructed scope and a body that
  returns: when the deferred patchMachine fails, its error is the error the operation
  returns, whether the body was returning nil, an error or a requeue signal; when it
  succeeds, the operation returns what the body returned.
\<close>

theorem patch_error_replaces_result:
  "(newMachineScope m machine (world st) = (Inr sc, w0) \<longrightarrow>
    Create_body m sc (st\<lparr>world := w0\<rparr>) = (Return r, sc', st1) \<longrightarrow>
      fst (Create m machine st) =
        Return (case fst (patchMachine m sc' (world st1)) of Some e \<Rightarrow> Some e | None \<Rightarrow> r))
   \<and> (newMachineScope m machine (world st) = (Inr sc, w0) \<longrightarrow>
    Delete_body m sc (st\<lparr>world := w0\<rparr>) = (Return r, sc', st1) \<longrightarrow>
      fst (Delete m machine st) =
        Return (case fst (patchMachine m sc' (world st1)) of Some e \<Rightarrow> Some e | None \<Rightarrow> r))
   \<and> (newMachineScope m machine (world st) = (Inr sc, w0) \<longrightarrow>
    Update_body m sc (st\<lparr>world := w0\<rparr>) = (Return r, sc', st1) \<longrightarrow>
      fst (Update m machine st) =
        Return (case fst (patchMachine m sc' (world st1)) of Some e \<Rightarrow> Some e | None \<Rightarrow> r))"
  by (auto simp: Create_unfold Delete_unfold Update_unfold deferred_patchMachine_result
      split: option.splits)

text \<open>
  An instance: the lookup of Delete fails with an error that is not a not-found; with a
  failing patch-back Delete returns the patch error, with a successful one the lookup error.
\<close>

theorem patch_error_replaces_result_witness:
  "fst (Delete
      (fakeManager
         (Inr (fakeScope (fakeClient (None, None) None (\<lambda>n. (None, Some admissionDenied))
                 (None, None)) False))
         (Some patchFailed) None)
      machine0 state0) = Return (Some patchFailed)
   \<and> fst (Delete
      (fakeManager
         (Inr (fakeScope (fakeClient (None, None) None (\<lambda>n. (None, Some admissionDenied))
                 (None, None)) False))
         None None)
      machine0 state0) = Return (Some (Library admissionDenied))"
  using patch_error_replaces_result
    [where m = "fakeManager
         (Inr (fakeScope (fakeClient (None, None) None (\<lambda>n. (None, Some admissionDenied))
                 (None, None)) False))
         (Some patchFailed) None"
       and machine = machine0 and st = state0
       and sc = "fakeScope (fakeClient (None, None) None (\<lambda>n. (None, Some admissionDenied))
                 (None, None)) False"
       and ?w0.0 = 0 and r = "Some (Library admissionDenied)"
       and sc' = "fakeScope (fakeClient (None, None) None (\<lambda>n. (None, Some admissionDenied))
                 (None, None)) False"
       and ?st1.0 = "\<lparr>world = 1, trace = [lookupCall]\<rparr>"]
    patch_error_replaces_result
    [where m = "fakeManager
         (Inr (fakeScope (fakeClient (None, None) None (\<lambda>n. (None, Some admissionDenied))
                 (None, None)) False))
         None None"
       and machine = machine0 and st = state0
       and sc = "fakeScope (fakeClient (None, None) None (\<lambda>n. (None, Some admissionDenied))
                 (None, None)) False"
       and ?w0.0 = 0 and r = "Some (Library admissionDenied)"
       and sc' = "fakeScope (fakeClient (None, None) None (\<lambda>n. (None, Some admissionDenied))
                 (None, None)) False"
       and ?st1.0 = "\<lparr>world = 1, trace = [lookupCall]\<rparr>"]
  by (simp add: wit_defs)

section \<open>Exists and Delete\<close>

text \<open>
  C3. With the scope constructed, Exists answers by the result of the lookup: (false, nil)
  when the lookup error's text contains "not found", (false, the error) for any other lookup
  error, (false, nil) for a nil VM without error, and (true, nil) otherwise. Whenever Exists
  answers true, its error is nil, the scope was constructed and the lookup returned a VM
  without error.
\<close>

theorem Exists_cases:
  "(newMachineScope m machine (world st) = (Inr sc, w0) \<longrightarrow>
    getVM (GetName (virtualMachine sc)) sc (st\<lparr>world := w0\<rparr>) = ((vm, err), st1) \<longrightarrow>
      fst (Exists m machine st) =
        (case err of
           Some e \<Rightarrow>
             if sublist ''not found'' (Error e) then (False, None)
             else (False, Some (Library e))
         | None \<Rightarrow> (case vm of None \<Rightarrow> (False, None) | Some v \<Rightarrow> (True, None))))
   \<and> (fst (fst (Exists m machine st)) \<longrightarrow>
        snd (fst (Exists m machine st)) = None \<and>
        (\<exists>sc w0 v st1. newMachineScope m machine (world st) = (Inr sc, w0) \<and>
           getVM (GetName (virtualMachine sc)) sc (st\<lparr>world := w0\<rparr>) = ((Some v, None), st1)))"
proof (intro conjI impI)
  assume "newMachineScope m machine (world st) = (Inr sc, w0)"
    and "getVM (GetName (virtualMachine sc)) sc (st\<lparr>world := w0\<rparr>) = ((vm, err), st1)"
  then show "fst (Exists m machine st) =
        (case err of
           Some e \<Rightarrow>
             if sublist ''not found'' (Error e) then (False, None)
             else (False, Some (Library e))
         | None \<Rightarrow> (case vm of None \<Rightarrow> (False, None) | Some v \<Rightarrow> (True, None)))"
    by (simp add: Exists_def prepareMachineScope_Inr Contains_sublist split: option.splits)
next
  assume t: "fst (fst (Exists m machine st))"
  obtain r w0 where n: "newMachineScope m machine (world st) = (r, w0)"
    by (cases "newMachineScope m machine (world st)") auto
  show "snd (fst (Exists m machine st)) = None"
    using t n
    by (auto simp: Exists_def prepareMachineScope_def Let_def
        split: sum.splits prod.splits option.splits if_splits)
  show "\<exists>sc w0 v st1. newMachineScope m machine (world st) = (Inr sc, w0) \<and>
           getVM (GetName (virtualMachine sc)) sc (st\<lparr>world := w0\<rparr>) = ((Some v, None), st1)"
    using t n
    by (auto simp: Exists_def prepareMachineScope_def Let_def
        split: sum.splits prod.splits option.splits if_splits)
qed

text \<open>An instance: a lookup that reports not-found, and a lookup that returns a VM.\<close>

theorem Exists_cases_witness:
  "fst (Exists
      (fakeManager
         (Inr (fakeScope (fakeClient (None, None) None (\<lambda>n. (None, Some vmNotFound))
                 (None, None)) False))
         None None)
      machine0 state0) = (False, None)
   \<and> fst (Exists
      (fakeManager
         (Inr (fakeScope (fakeClient (None, None) None
                 (\<lambda>n. (Some (remoteVM ''42'' True), None)) (None, None)) False))
         None None)
      machine0 state0) = (True, None)"
  using Exists_cases
    [where m = "fakeManager
         (Inr (fakeScope (fakeClient (None, None) None (\<lambda>n. (None, Some vmNotFound))
                 (None, None)) False))
         None None"
       and machine = machine0 and st = state0
       and sc = "fakeScope (fakeClient (None, None) None (\<lambda>n. (None, Some vmNotFound))
                 (None, None)) False"
       and ?w0.0 = 0 and vm = None and err = "Some vmNotFound"
       and ?st1.0 = "\<lparr>world = 1, trace = [lookupCall]\<rparr>"]
    Exists_cases
    [where m = "fakeManager
         (Inr (fakeScope (fakeClient (None, None) None
                 (\<lambda>n. (Some (remoteVM ''42'' True), None)) (None, None)) False))
         None None"
       and machine = machine0 and st = state0
       and sc = "fakeScope (fakeClient (None, None) None
                 (\<lambda>n. (Some (remoteVM ''42'' True), None)) (None, None)) False"
       and ?w0.0 = 0 and vm = "Some (remoteVM ''42'' True)" and err = None
       and ?st1.0 = "\<lparr>world = 1, trace = [lookupCall]\<rparr>"]
  by (simp add: wit_defs)

text \<open>
  C4, as stated, fails: what Delete returns also depends on the deferred patch-back. Here
  the lookup fails with an error whose text contains "not found", the patch-back fails, and
  Delete returns the patch error, not nil.
\<close>

theorem Delete_patch_failure_counterexample:
  "fst (GetVirtualMachine
          (fakeClient (None, None) None (\<lambda>n. (None, Some vmNotFound)) (None, None))
          ''cluster'' ''worker-0'' \<lparr>GetOptions_ResourceVersion = []\<rparr> 0)
     = (None, Some vmNotFound)
   \<and> Contains (Error vmNotFound) ''not found''
   \<and> fst (Delete
      (fakeManager
         (Inr (fakeScope (fakeClient (None, None) None (\<lambda>n. (None, Some vmNotFound))
                 (None, None)) False))
         (Some patchFailed) None)
      machine0 state0) = Return (Some patchFailed)"
  by (simp add: fake_defs op_defs vmNotFound_def patchFailed_def)

text \<open>
  C4, amended. Delete with a constructed scope, in terms of the client's own lookup and
  delete and of the manager's patchMachine. When the lookup returns a VM without error,
  the client's delete is applied to the world the lookup left, with the machine's namespace,
  the VM's name and a grace period of 10, and the patch-back to the world the delete left;
  Delete then returns nil when the delete succeeded and its error wrapped as
  "failed to delete VM: ..." when it failed. Otherwise no delete is called and the patch-back
  is applied to the world the lookup left; Delete then returns nil when the lookup error's
  text contains "not found" or the lookup returned a nil VM without error, and any other
  lookup error unchanged. In every case a failing patch-back replaces that result by the
  patch error.
\<close>

theorem Delete_idempotent_to_absence:
  "newMachineScope m machine (world st) = (Inr sc, w0) \<Longrightarrow>
   GetVirtualMachine (kubevirtClient sc) (machineNamespace sc) (GetName (virtualMachine sc))
     \<lparr>GetOptions_ResourceVersion = []\<rparr> w0 = ((vm, err), w1) \<Longrightarrow>
   DeleteVirtualMachine (kubevirtClient sc) (machineNamespace sc) (GetName (virtualMachine sc))
     \<lparr>GracePeriodSeconds = Some 10\<rparr> w1 = (deleteVMErr, w2) \<Longrightarrow>
     Delete m machine st =
       (if err = None \<and> vm \<noteq> None
        then
          (Return (case fst (patchMachine m sc w2) of
                     Some pe \<Rightarrow> Some pe
                   | None \<Rightarrow>
                       (case deleteVMErr of
                          None \<Rightarrow> None
                        | Some e \<Rightarrow> Some (Errorf ''failed to delete VM: '' (Library e)))),
           \<lparr>world = snd (patchMachine m sc w2),
            trace = trace st @
              [Call_GetVirtualMachine (machineNamespace sc) (GetName (virtualMachine sc))
                 \<lparr>GetOptions_ResourceVersion = []\<rparr>,
               Call_DeleteVirtualMachine (machineNamespace sc) (GetName (virtualMachine sc))
                 \<lparr>GracePeriodSeconds = Some 10\<rparr>,
               Call_patchMachine (providerStatus sc)]\<rparr>)
        else
          (Return (case fst (patchMachine m sc w1) of
                     Some pe \<Rightarrow> Some pe
                   | None \<Rightarrow>
                       (case err of
                          None \<Rightarrow> None
                        | Some e \<Rightarrow>
                            if sublist ''not found'' (Error e) then None
                            else Some (Library e))),
           \<lparr>world = snd (patchMachine m sc w1),
            trace = trace st @
              [Call_GetVirtualMachine (machineNamespace sc) (GetName (virtualMachine sc))
                 \<lparr>GetOptions_ResourceVersion = []\<rparr>,
               Call_patchMachine (providerStatus sc)]\<rparr>))"
proof -
  assume scope: "newMachineScope m machine (world st) = (Inr sc, w0)"
    and lookup: "GetVirtualMachine (kubevirtClient sc) (machineNamespace sc)
       (GetName (virtualMachine sc)) \<lparr>GetOptions_ResourceVersion = []\<rparr> w0 = ((vm, err), w1)"
    and del: "DeleteVirtualMachine (kubevirtClient sc) (machineNamespace sc)
       (GetName (virtualMachine sc)) \<lparr>GracePeriodSeconds = Some 10\<rparr> w1 = (deleteVMErr, w2)"
  let ?get = "Call_GetVirtualMachine (machineNamespace sc) (GetName (virtualMachine sc))
                 \<lparr>GetOptions_ResourceVersion = []\<rparr>"
  let ?st1 = "\<lparr>world = w1, trace = trace st @ [?get]\<rparr>"
  have g: "getVM (GetName (virtualMachine sc)) sc (st\<lparr>world := w0\<rparr>) = ((vm, err), ?st1)"
    using getVM_applied [of sc "GetName (virtualMachine sc)" "st\<lparr>world := w0\<rparr>"] lookup by simp
  have d: "deleteVM (GetName (virtualMachine sc)) sc ?st1 =
      (deleteVMErr, \<lparr>world = w2, trace = trace st @
         [?get, Call_DeleteVirtualMachine (machineNamespace sc) (GetName (virtualMachine sc))
                 \<lparr>GracePeriodSeconds = Some 10\<rparr>]\<rparr>)"
    using deleteVM_applied [of sc "GetName (virtualMachine sc)" ?st1] del by simp
  obtain r stb where b: "Delete_body m sc (st\<lparr>world := w0\<rparr>) = (r, sc, stb)"
    using Delete_body_scope [of m sc "st\<lparr>world := w0\<rparr>"]
    by (cases "Delete_body m sc (st\<lparr>world := w0\<rparr>)") auto
  have body: "(r, sc, stb) =
      (case err of
         Some e \<Rightarrow>
           if sublist ''not found'' (Error e) then (Return None, sc, ?st1)
           else (Return (Some (Library e)), sc, ?st1)
       | None \<Rightarrow>
           (case vm of
              None \<Rightarrow> (Return None, sc, ?st1)
            | Some v \<Rightarrow>
                (case deleteVMErr of
                   None \<Rightarrow> (Return None, sc, \<lparr>world = w2, trace = trace st @
         [?get, Call_DeleteVirtualMachine (machineNamespace sc) (GetName (virtualMachine sc))
                 \<lparr>GracePeriodSeconds = Some 10\<rparr>]\<rparr>)
                 | Some e \<Rightarrow> (Return (Some (Errorf ''failed to delete VM: '' (Library e))), sc,
                     \<lparr>world = w2, trace = trace st @
         [?get, Call_DeleteVirtualMachine (machineNamespace sc) (GetName (virtualMachine sc))
                 \<lparr>GracePeriodSeconds = Some 10\<rparr>]\<rparr>))))"
    using g d b [symmetric]
    by (simp add: Delete_body_def Contains_sublist split: option.splits)
  show ?thesis
    using body
    by (simp add: Delete_unfold [OF scope b] deferred_patchMachine_applied
        split: option.splits if_splits)
qed

text \<open>
  An instance: with a not-found lookup Delete returns nil and calls no delete; with a VM
  found and a client that refuses the deletion, the delete call carries the grace period 10
  and its error comes back wrapped.
\<close>

theorem Delete_idempotent_to_absence_witness:
  "Delete
      (patchingManager
         (Inr (fakeScope (fakeClient (None, None) None (\<lambda>n. (None, Some vmNotFound))
                 (None, None)) False))
         None None)
      machine0 state0 =
     (Return None,
      \<lparr>world = 101,
       trace = [lookupCall, Call_patchMachine \<lparr>condition = None, vmFields = None\<rparr>]\<rparr>)
   \<and> Delete
      (patchingManager
         (Inr (fakeScope (fakeClient (None, None) (Some admissionDenied)
                 (\<lambda>n. (Some (remoteVM ''42'' True), None)) (None, None)) False))
         None None)
      machine0 state0 =
     (Return (Some (Errorf ''failed to delete VM: '' (Library admissionDenied))),
      \<lparr>world = 101,
       trace = [lookupCall,
                Call_DeleteVirtualMachine ''cluster'' ''worker-0'' \<lparr>GracePeriodSeconds = Some 10\<rparr>,
                Call_patchMachine \<lparr>condition = None, vmFields = None\<rparr>]\<rparr>)"
  using Delete_idempotent_to_absence
    [where m = "patchingManager
         (Inr (fakeScope (fakeClient (None, None) None (\<lambda>n. (None, Some vmNotFound))
                 (None, None)) False))
         None None"
       and machine = machine0 and st = state0
       and sc = "fakeScope (fakeClient (None, None) None (\<lambda>n. (None, Some vmNotFound))
                 (None, None)) False"
       and ?w0.0 = 0 and vm = None and err = "Some vmNotFound" and ?w1.0 = 1
       and deleteVMErr = None and ?w2.0 = 1]
    Delete_idempotent_to_absence
    [where m = "patchingManager
         (Inr (fakeScope (fakeClient (None, None) (Some admissionDenied)
                 (\<lambda>n. (Some (remoteVM ''42'' True), None)) (None, None)) False))
         None None"
       and machine = machine0 and st = state0
       and sc = "fakeScope (fakeClient (None, None) (Some admissionDenied)
                 (\<lambda>n. (Some (remoteVM ''42'' True), None)) (None, None)) False"
       and ?w0.0 = 0 and vm = "Some (remoteVM ''42'' True)" and err = None and ?w1.0 = 1
       and deleteVMErr = "Some admissionDenied" and ?w2.0 = 1]
  by (simp add: wit2_defs)

section \<open>Readiness and requeueing\<close>

text \<open>
  C5, as stated, fails: what Create and Update return also depends on the deferred
  patch-back. Here the client creates a VM that is not ready, the patch-back fails, and
  Create returns the patch error, not the requeue signal.
\<close>

theorem readiness_patch_failure_counterexample:
  "fst (CreateVirtualMachine
          (fakeClient (Some (remoteVM ''1'' False), None) None (\<lambda>n. (None, None)) (None, None))
          ''cluster'' renderedVM 0)
     = (Some (remoteVM ''1'' False), None)
   \<and> \<not> Ready (Status (remoteVM ''1'' False))
   \<and> fst (Create
      (fakeManager
         (Inr (fakeScope (fakeClient (Some (remoteVM ''1'' False), None) None
                 (\<lambda>n. (None, None)) (None, None)) False))
         (Some patchFailed) None)
      machine0 state0) = Return (Some patchFailed)
   \<and> patchFailed \<noteq> RequeueAfterError (20 * Second)"
  by (simp add: fake_defs op_defs patchFailed_def)

text \<open>
  C5, amended. requeueIfInstancePending on a VM returns the requeue signal of 20 seconds
  when the VM is not ready and nil when it is. When the client's create returns a VM without
  error and the extraction of the provider specifics succeeds, Create returns that result
  for the created VM, unless the patch-back fails, in which case it returns the patch error.
  When the client's lookup finds a VM, the client's update of the rendered specification
  with the found version token returns a VM without error and the extraction succeeds,
  Update returns that result for the VM it observes (the re-fetched VM, or the updated one
  when the re-fetch fails), unless the patch-back fails, in which case it returns the patch
  error. The hypotheses are on the client's own functions applied to the world.
\<close>

theorem readiness_requeue_rule:
  "requeueIfInstancePending (Some vm) n =
     Return (if Ready (Status vm) then None else Some (RequeueAfterError (20 * Second)))
   \<and> (newMachineScope m machine (world st) = (Inr sc, w0) \<longrightarrow>
    CreateVirtualMachine (kubevirtClient sc) (machineNamespace sc) (virtualMachine sc) w0
      = ((Some vm, None), w1) \<longrightarrow>
    setMachineCloudProviderSpecifics m (Some vm) (setProviderID m (Some vm) sc) = (None, sc2) \<longrightarrow>
      Create m machine st =
        (Return (case fst (patchMachine m (setProviderStatus (Some vm) conditionSuccess sc2) w1) of
                   Some pe \<Rightarrow> Some pe
                 | None \<Rightarrow>
                     if Ready (Status vm) then None else Some (RequeueAfterError (20 * Second))),
         \<lparr>world = snd (patchMachine m (setProviderStatus (Some vm) conditionSuccess sc2) w1),
          trace = trace st @
            [Call_CreateVirtualMachine (machineNamespace sc) (virtualMachine sc),
             Call_patchMachine \<lparr>condition = Some Success, vmFields = Some vm\<rparr>]\<rparr>))
   \<and> (newMachineScope m machine (world st) = (Inr sc, w0) \<longrightarrow>
    GetVirtualMachine (kubevirtClient sc) (machineNamespace sc) (GetName (virtualMachine sc))
      \<lparr>GetOptions_ResourceVersion = []\<rparr> w0 = ((Some existing, None), w1) \<longrightarrow>
    UpdateVirtualMachine (kubevirtClient sc) (machineNamespace sc)
      ((virtualMachine sc)\<lparr>ObjectMeta :=
         (ObjectMeta (virtualMachine sc))\<lparr>ResourceVersion :=
            ResourceVersion (ObjectMeta existing)\<rparr>\<rparr>) w1 = ((Some updated, None), w2) \<longrightarrow>
    setMachineCloudProviderSpecifics m (Some updated)
      (setProviderID m (Some updated) (carryResourceVersion existing sc)) = (None, sc3) \<longrightarrow>
    GetVirtualMachine (kubevirtClient (setProviderStatus (Some updated) conditionSuccess sc3))
      (machineNamespace (setProviderStatus (Some updated) conditionSuccess sc3))
      (GetName (virtualMachine (setProviderStatus (Some updated) conditionSuccess sc3)))
      \<lparr>GetOptions_ResourceVersion = []\<rparr> w2 = ((fetched, fetchErr), w3) \<longrightarrow>
    (if fetchErr \<noteq> None then Some updated else fetched) = Some observed \<longrightarrow>
      fst (Update m machine st) =
        Return (case fst (patchMachine m (setProviderStatus (Some updated) conditionSuccess sc3) w3) of
                  Some pe \<Rightarrow> Some pe
                | None \<Rightarrow>
                    if Ready (Status observed) then None
                    else Some (RequeueAfterError (20 * Second)))
      \<and> world (snd (Update m machine st)) =
          snd (patchMachine m (setProviderStatus (Some updated) conditionSuccess sc3) w3))"
proof (intro conjI impI)
  show "requeueIfInstancePending (Some vm) n =
     Return (if Ready (Status vm) then None else Some (RequeueAfterError (20 * Second)))"
    by (rule requeueIfInstancePending_Some)
next
  assume scope: "newMachineScope m machine (world st) = (Inr sc, w0)"
    and cr: "CreateVirtualMachine (kubevirtClient sc) (machineNamespace sc) (virtualMachine sc) w0
      = ((Some vm, None), w1)"
    and sp: "setMachineCloudProviderSpecifics m (Some vm) (setProviderID m (Some vm) sc) = (None, sc2)"
  have c: "createVM (virtualMachine sc) sc (st\<lparr>world := w0\<rparr>) =
      ((Some vm, None), \<lparr>world = w1, trace = trace st @
         [Call_CreateVirtualMachine (machineNamespace sc) (virtualMachine sc)]\<rparr>)"
    using createVM_applied [of sc "virtualMachine sc" "st\<lparr>world := w0\<rparr>"] cr by simp
  have body: "Create_body m sc (st\<lparr>world := w0\<rparr>) =
     (requeueIfInstancePending (Some vm) (getMachineName (setProviderStatus (Some vm) conditionSuccess sc2)),
      setProviderStatus (Some vm) conditionSuccess sc2,
      \<lparr>world = w1, trace = trace st @
         [Call_CreateVirtualMachine (machineNamespace sc) (virtualMachine sc)]\<rparr>)"
    using c sp by (simp add: Create_body_def Let_def)
  show "Create m machine st =
        (Return (case fst (patchMachine m (setProviderStatus (Some vm) conditionSuccess sc2) w1) of
                   Some pe \<Rightarrow> Some pe
                 | None \<Rightarrow>
                     if Ready (Status vm) then None else Some (RequeueAfterError (20 * Second))),
         \<lparr>world = snd (patchMachine m (setProviderStatus (Some vm) conditionSuccess sc2) w1),
          trace = trace st @
            [Call_CreateVirtualMachine (machineNamespace sc) (virtualMachine sc),
             Call_patchMachine \<lparr>condition = Some Success, vmFields = Some vm\<rparr>]\<rparr>)"
    by (simp add: Create_unfold [OF scope body] deferred_patchMachine_applied
        requeueIfInstancePending_Some setProviderStatus_def conditionSuccess_def)
next
  assume scope: "newMachineScope m machine (world st) = (Inr sc, w0)"
    and lk: "GetVirtualMachine (kubevirtClient sc) (machineNamespace sc) (GetName (virtualMachine sc))
      \<lparr>GetOptions_ResourceVersion = []\<rparr> w0 = ((Some existing, None), w1)"
    and up: "UpdateVirtualMachine (kubevirtClient sc) (machineNamespace sc)
      ((virtualMachine sc)\<lparr>ObjectMeta :=
         (ObjectMeta (virtualMachine sc))\<lparr>ResourceVersion :=
            ResourceVersion (ObjectMeta existing)\<rparr>\<rparr>) w1 = ((Some updated, None), w2)"
    and sp: "setMachineCloudProviderSpecifics m (Some updated)
      (setProviderID m (Some updated) (carryResourceVersion existing sc)) = (None, sc3)"
    and rf: "GetVirtualMachine (kubevirtClient (setProviderStatus (Some updated) conditionSuccess sc3))
      (machineNamespace (setProviderStatus (Some updated) conditionSuccess sc3))
      (GetName (virtualMachine (setProviderStatus (Some updated) conditionSuccess sc3)))
      \<lparr>GetOptions_ResourceVersion = []\<rparr> w2 = ((fetched, fetchErr), w3)"
    and ob: "(if fetchErr \<noteq> None then Some updated else fetched) = Some observed"
  let ?sc1 = "carryResourceVersion existing sc"
  let ?sc4 = "setProviderStatus (Some updated) conditionSuccess sc3"
  let ?get = "Call_GetVirtualMachine (machineNamespace sc) (GetName (virtualMachine sc))
                 \<lparr>GetOptions_ResourceVersion = []\<rparr>"
  let ?st1 = "\<lparr>world = w1, trace = trace st @ [?get]\<rparr>"
  let ?st2 = "\<lparr>world = w2, trace = trace st @
      [?get, Call_UpdateVirtualMachine (machineNamespace sc) (virtualMachine ?sc1)]\<rparr>"
  have g: "getVM (GetName (virtualMachine sc)) sc (st\<lparr>world := w0\<rparr>) = ((Some existing, None), ?st1)"
    using getVM_applied [of sc "GetName (virtualMachine sc)" "st\<lparr>world := w0\<rparr>"] lk by simp
  have u: "updateVM (virtualMachine ?sc1) ?sc1 ?st1 = ((Some updated, None), ?st2)"
    using updateVM_applied [of ?sc1 "virtualMachine ?sc1" ?st1] up
    by (simp add: carryResourceVersion_fields)
  obtain st3 where g2: "getVM (GetName (virtualMachine ?sc4)) ?sc4 ?st2 = ((fetched, fetchErr), st3)"
    and w3: "world st3 = w3"
    using getVM_applied [of ?sc4 "GetName (virtualMachine ?sc4)" ?st2] rf by simp
  have body: "Update_body m sc (st\<lparr>world := w0\<rparr>) =
     (requeueIfInstancePending (Some observed) (getMachineName ?sc4), ?sc4, st3)"
    using g u sp g2 ob by (simp add: Update_body_def Let_def)
  show "fst (Update m machine st) =
        Return (case fst (patchMachine m ?sc4 w3) of
                  Some pe \<Rightarrow> Some pe
                | None \<Rightarrow>
                    if Ready (Status observed) then None
                    else Some (RequeueAfterError (20 * Second)))"
    by (simp add: Update_unfold [OF scope body] deferred_patchMachine_applied
        requeueIfInstancePending_Some w3)
  show "world (snd (Update m machine st)) = snd (patchMachine m ?sc4 w3)"
    by (simp add: Update_unfold [OF scope body] deferred_patchMachine_applied w3)
qed

text \<open>
  An instance: Create on a VM that is not ready; Update whose re-fetch fails and which falls
  back on the ready VM returned by the update.
\<close>

theorem readiness_requeue_rule_witness:
  "Create
      (patchingManager
         (Inr (fakeScope (fakeClient (Some (remoteVM ''1'' False), None) None
                 (\<lambda>n. (None, None)) (None, None)) False))
         None None)
      machine0 state0 =
     (Return (Some (RequeueAfterError (20 * Second))),
      \<lparr>world = 100,
       trace = [Call_CreateVirtualMachine ''cluster'' renderedVM,
                Call_patchMachine
                  \<lparr>condition = Some Success, vmFields = Some (remoteVM ''1'' False)\<rparr>]\<rparr>)
   \<and> fst (Update
      (patchingManager
         (Inr (fakeScope (fakeClient (None, None) None
                 (\<lambda>n. if n = 0 then (Some (remoteVM ''1'' False), None)
                      else (None, Some admissionDenied))
                 (Some (remoteVM ''2'' True), None)) False))
         None None)
      machine0 state0) = Return None
   \<and> world (snd (Update
      (patchingManager
         (Inr (fakeScope (fakeClient (None, None) None
                 (\<lambda>n. if n = 0 then (Some (remoteVM ''1'' False), None)
                      else (None, Some admissionDenied))
                 (Some (remoteVM ''2'' True), None)) False))
         None None)
      machine0 state0)) = 102"
  using readiness_requeue_rule
    [where m = "patchingManager
         (Inr (fakeScope (fakeClient (Some (remoteVM ''1'' False), None) None
                 (\<lambda>n. (None, None)) (None, None)) False))
         None None"
       and machine = machine0 and st = state0
       and sc = "fakeScope (fakeClient (Some (remoteVM ''1'' False), None) None
                 (\<lambda>n. (None, None)) (None, None)) False"
       and ?w0.0 = 0 and vm = "remoteVM ''1'' False" and ?w1.0 = 0
       and ?sc2.0 = "fakeScope (fakeClient (Some (remoteVM ''1'' False), None) None
                 (\<lambda>n. (None, None)) (None, None)) False"]
    readiness_requeue_rule
    [where m = "patchingManager
         (Inr (fakeScope (fakeClient (None, None) None
                 (\<lambda>n. if n = 0 then (Some (remoteVM ''1'' False), None)
                      else (None, Some admissionDenied))
                 (Some (remoteVM ''2'' True), None)) False))
         None None"
       and machine = machine0 and st = state0
       and sc = "fakeScope (fakeClient (None, None) None
                 (\<lambda>n. if n = 0 then (Some (remoteVM ''1'' False), None)
                      else (None, Some admissionDenied))
                 (Some (remoteVM ''2'' True), None)) False"
       and ?w0.0 = 0 and existing = "remoteVM ''1'' False" and ?w1.0 = 1
       and updated = "remoteVM ''2'' True" and ?w2.0 = 1
       and ?sc3.0 = "carryResourceVersion (remoteVM ''1'' False)
            (fakeScope (fakeClient (None, None) None
                 (\<lambda>n. if n = 0 then (Some (remoteVM ''1'' False), None)
                      else (None, Some admissionDenied))
                 (Some (remoteVM ''2'' True), None)) False)"
       and fetched = None and fetchErr = "Some admissionDenied" and ?w3.0 = 2
       and observed = "remoteVM ''2'' True"]
  by (simp add: wit2_defs)

section \<open>Update\<close>

text \<open>
  C6, as stated, fails: what Update returns also depends on the deferred patch-back. Here
  the lookup returns a nil VM without error, updateAllowed does not hold, the patch-back
  fails, and Update returns the patch error, not the requeue signal of 180 seconds.
\<close>

theorem Update_absent_patch_failure_counterexample:
  "fst (GetVirtualMachine
          (fakeClient (None, None) None (\<lambda>n. (None, None)) (None, None))
          ''cluster'' ''worker-0'' \<lparr>GetOptions_ResourceVersion = []\<rparr> 0) = (None, None)
   \<and> \<not> updateAllowed (fakeScope (fakeClient (None, None) None (\<lambda>n. (None, None)) (None, None)) False)
   \<and> fst (Update
      (fakeManager
         (Inr (fakeScope (fakeClient (None, None) None (\<lambda>n. (None, None)) (None, None)) False))
         (Some patchFailed) None)
      machine0 state0) = Return (Some patchFailed)
   \<and> patchFailed \<noteq> RequeueAfterError (180 * Second)"
  by (simp add: fake_defs op_defs patchFailed_def)

text \<open>
  C6, amended. Update whose lookup, the client's own, returns a nil VM without error. If
  updateAllowed holds the body returns the requeue signal of 20 seconds and leaves the
  scope, hence the condition and the status, as constructed; otherwise it sets the provider
  status to condition Success with no VM-derived fields and returns the requeue signal of
  180 seconds. Nothing else is called after the lookup; the patch-back is applied to that
  scope and the world the lookup left, and Update returns the signal unless the patch-back
  fails, in which case it returns the patch error.
\<close>

theorem Update_absent_VM:
  "newMachineScope m machine (world st) = (Inr sc, w0) \<Longrightarrow>
   GetVirtualMachine (kubevirtClient sc) (machineNamespace sc) (GetName (virtualMachine sc))
     \<lparr>GetOptions_ResourceVersion = []\<rparr> w0 = ((None, None), w1) \<Longrightarrow>
     Update_body m sc (st\<lparr>world := w0\<rparr>) =
       (if updateAllowed sc
        then (Return (Some (RequeueAfterError (20 * Second))), sc,
              \<lparr>world = w1, trace = trace st @
                 [Call_GetVirtualMachine (machineNamespace sc) (GetName (virtualMachine sc))
                    \<lparr>GetOptions_ResourceVersion = []\<rparr>]\<rparr>)
        else (Return (Some (RequeueAfterError (180 * Second))),
              sc\<lparr>providerStatus := \<lparr>condition = Some Success, vmFields = None\<rparr>\<rparr>,
              \<lparr>world = w1, trace = trace st @
                 [Call_GetVirtualMachine (machineNamespace sc) (GetName (virtualMachine sc))
                    \<lparr>GetOptions_ResourceVersion = []\<rparr>]\<rparr>))
     \<and> Update m machine st =
         (if updateAllowed sc
          then (Return (case fst (patchMachine m sc w1) of
                          Some pe \<Rightarrow> Some pe
                        | None \<Rightarrow> Some (RequeueAfterError (20 * Second))),
                \<lparr>world = snd (patchMachine m sc w1),
                 trace = trace st @
                   [Call_GetVirtualMachine (machineNamespace sc) (GetName (virtualMachine sc))
                      \<lparr>GetOptions_ResourceVersion = []\<rparr>,
                    Call_patchMachine (providerStatus sc)]\<rparr>)
          else (Return (case fst (patchMachine m
                                (sc\<lparr>providerStatus := \<lparr>condition = Some Success, vmFields = None\<rparr>\<rparr>)
                                w1) of
                          Some pe \<Rightarrow> Some pe
                        | None \<Rightarrow> Some (RequeueAfterError (180 * Second))),
                \<lparr>world = snd (patchMachine m
                                (sc\<lparr>providerStatus := \<lparr>condition = Some Success, vmFields = None\<rparr>\<rparr>)
                                w1),
                 trace = trace st @
                   [Call_GetVirtualMachine (machineNamespace sc) (GetName (virtualMachine sc))
                      \<lparr>GetOptions_ResourceVersion = []\<rparr>,
                    Call_patchMachine \<lparr>condition = Some Success, vmFields = None\<rparr>]\<rparr>))"
proof -
  assume scope: "newMachineScope m machine (world st) = (Inr sc, w0)"
    and lk: "GetVirtualMachine (kubevirtClient sc) (machineNamespace sc) (GetName (virtualMachine sc))
     \<lparr>GetOptions_ResourceVersion = []\<rparr> w0 = ((None, None), w1)"
  let ?st1 = "\<lparr>world = w1, trace = trace st @
                 [Call_GetVirtualMachine (machineNamespace sc) (GetName (virtualMachine sc))
                    \<lparr>GetOptions_ResourceVersion = []\<rparr>]\<rparr>"
  have g: "getVM (GetName (virtualMachine sc)) sc (st\<lparr>world := w0\<rparr>) = ((None, None), ?st1)"
    using getVM_applied [of sc "GetName (virtualMachine sc)" "st\<lparr>world := w0\<rparr>"] lk by simp
  have body: "Update_body m sc (st\<lparr>world := w0\<rparr>) =
       (if updateAllowed sc
        then (Return (Some (RequeueAfterError (20 * Second))), sc, ?st1)
        else (Return (Some (RequeueAfterError (180 * Second))),
              sc\<lparr>providerStatus := \<lparr>condition = Some Success, vmFields = None\<rparr>\<rparr>, ?st1))"
    using g
    by (simp add: Update_body_def setProviderStatus_def conditionSuccess_def
        requeueAfterSeconds_def requeueAfterFatalSeconds_def)
  show ?thesis
  proof (cases "updateAllowed sc")
    case True
    with body have b: "Update_body m sc (st\<lparr>world := w0\<rparr>) =
        (Return (Some (RequeueAfterError (20 * Second))), sc, ?st1)" by simp
    show ?thesis
      using True body
      by (simp add: Update_unfold [OF scope b] deferred_patchMachine_applied)
  next
    case False
    with body have b: "Update_body m sc (st\<lparr>world := w0\<rparr>) =
        (Return (Some (RequeueAfterError (180 * Second))),
         sc\<lparr>providerStatus := \<lparr>condition = Some Success, vmFields = None\<rparr>\<rparr>, ?st1)" by simp
    show ?thesis
      using False body
      by (simp add: Update_unfold [OF scope b] deferred_patchMachine_applied)
  qed
qed

text \<open>An instance for each answer of updateAllowed.\<close>

theorem Update_absent_VM_witness:
  "Update
      (patchingManager
         (Inr (fakeScope (fakeClient (None, None) None (\<lambda>n. (None, None)) (None, None)) True))
         None None)
      machine0 state0 =
     (Return (Some (RequeueAfterError (20 * Second))),
      \<lparr>world = 101,
       trace = [lookupCall, Call_patchMachine \<lparr>condition = None, vmFields = None\<rparr>]\<rparr>)
   \<and> Update
      (patchingManager
         (Inr (fakeScope (fakeClient (None, None) None (\<lambda>n. (None, None)) (None, None)) False))
         None None)
      machine0 state0 =
     (Return (Some (RequeueAfterError (180 * Second))),
      \<lparr>world = 101,
       trace = [lookupCall, Call_patchMachine \<lparr>condition = Some Success, vmFields = None\<rparr>]\<rparr>)"
  using Update_absent_VM
    [where m = "patchingManager
         (Inr (fakeScope (fakeClient (None, None) None (\<lambda>n. (None, None)) (None, None)) True))
         None None"
       and machine = machine0 and st = state0
       and sc = "fakeScope (fakeClient (None, None) None (\<lambda>n. (None, None)) (None, None)) True"
       and ?w0.0 = 0 and ?w1.0 = 1]
    Update_absent_VM
    [where m = "patchingManager
         (Inr (fakeScope (fakeClient (None, None) None (\<lambda>n. (None, None)) (None, None)) False))
         None None"
       and machine = machine0 and st = state0
       and sc = "fakeScope (fakeClient (None, None) None (\<lambda>n. (None, None)) (None, None)) False"
       and ?w0.0 = 0 and ?w1.0 = 1]
  by (simp add: wit2_defs)

text \<open>
  C7. Update whose lookup finds a VM: the client's update is applied, in the world the
  lookup left, to the machine's namespace and the rendered specification with its version
  token replaced by the version token of the VM found. It is the call that follows the
  lookup in the record of calls; when it fails, Update returns its error wrapped (or the
  patch error) in the world it left; when it succeeds, the VM it returned is the one given
  to the setters.
\<close>

theorem Update_carries_ResourceVersion:
  "newMachineScope m machine (world st) = (Inr sc, w0) \<Longrightarrow>
   GetVirtualMachine (kubevirtClient sc) (machineNamespace sc) (GetName (virtualMachine sc))
     \<lparr>GetOptions_ResourceVersion = []\<rparr> w0 = ((Some existing, None), w1) \<Longrightarrow>
   UpdateVirtualMachine (kubevirtClient sc) (machineNamespace sc)
     ((virtualMachine sc)\<lparr>ObjectMeta :=
        (ObjectMeta (virtualMachine sc))\<lparr>ResourceVersion :=
           ResourceVersion (ObjectMeta existing)\<rparr>\<rparr>) w1 = ((updated, updateVMErr), w2) \<Longrightarrow>
     (\<exists>rest. trace (snd (Update m machine st)) =
        trace st @
        [Call_GetVirtualMachine (machineNamespace sc) (GetName (virtualMachine sc))
           \<lparr>GetOptions_ResourceVersion = []\<rparr>,
         Call_UpdateVirtualMachine (machineNamespace sc)
           ((virtualMachine sc)\<lparr>ObjectMeta :=
              (ObjectMeta (virtualMachine sc))\<lparr>ResourceVersion :=
                 ResourceVersion (ObjectMeta existing)\<rparr>\<rparr>)] @ rest)
     \<and> (\<forall>e. updateVMErr = Some e \<longrightarrow>
          Update m machine st =
            (Return (case fst (patchMachine m (carryResourceVersion existing sc) w2) of
                       Some pe \<Rightarrow> Some pe
                     | None \<Rightarrow> Some (Errorf ''failed to update VM: '' (Library e))),
             \<lparr>world = snd (patchMachine m (carryResourceVersion existing sc) w2),
              trace = trace st @
                [Call_GetVirtualMachine (machineNamespace sc) (GetName (virtualMachine sc))
                   \<lparr>GetOptions_ResourceVersion = []\<rparr>,
                 Call_UpdateVirtualMachine (machineNamespace sc)
                   ((virtualMachine sc)\<lparr>ObjectMeta :=
                      (ObjectMeta (virtualMachine sc))\<lparr>ResourceVersion :=
                         ResourceVersion (ObjectMeta existing)\<rparr>\<rparr>),
                 Call_patchMachine (providerStatus sc)]\<rparr>))
     \<and> (\<forall>e sc3. updateVMErr = None \<longrightarrow>
          setMachineCloudProviderSpecifics m updated
            (setProviderID m updated (carryResourceVersion existing sc)) = (Some e, sc3) \<longrightarrow>
          Update m machine st =
            (Return (case fst (patchMachine m sc3 w2) of
                       Some pe \<Rightarrow> Some pe
                     | None \<Rightarrow>
                         Some (Errorf ''failed to set machine cloud provider specifics: '' e)),
             \<lparr>world = snd (patchMachine m sc3 w2),
              trace = trace st @
                [Call_GetVirtualMachine (machineNamespace sc) (GetName (virtualMachine sc))
                   \<lparr>GetOptions_ResourceVersion = []\<rparr>,
                 Call_UpdateVirtualMachine (machineNamespace sc)
                   ((virtualMachine sc)\<lparr>ObjectMeta :=
                      (ObjectMeta (virtualMachine sc))\<lparr>ResourceVersion :=
                         ResourceVersion (ObjectMeta existing)\<rparr>\<rparr>),
                 Call_patchMachine (providerStatus sc3)]\<rparr>))"
proof -
  assume scope: "newMachineScope m machine (world st) = (Inr sc, w0)"
    and lk: "GetVirtualMachine (kubevirtClient sc) (machineNamespace sc) (GetName (virtualMachine sc))
     \<lparr>GetOptions_ResourceVersion = []\<rparr> w0 = ((Some existing, None), w1)"
    and up: "UpdateVirtualMachine (kubevirtClient sc) (machineNamespace sc)
     ((virtualMachine sc)\<lparr>ObjectMeta :=
        (ObjectMeta (virtualMachine sc))\<lparr>ResourceVersion :=
           ResourceVersion (ObjectMeta existing)\<rparr>\<rparr>) w1 = ((updated, updateVMErr), w2)"
  let ?sc1 = "carryResourceVersion existing sc"
  let ?vm = "(virtualMachine sc)\<lparr>ObjectMeta :=
        (ObjectMeta (virtualMachine sc))\<lparr>ResourceVersion :=
           ResourceVersion (ObjectMeta existing)\<rparr>\<rparr>"
  let ?get = "Call_GetVirtualMachine (machineNamespace sc) (GetName (virtualMachine sc))
                 \<lparr>GetOptions_ResourceVersion = []\<rparr>"
  let ?st1 = "\<lparr>world = w1, trace = trace st @ [?get]\<rparr>"
  let ?st2 = "\<lparr>world = w2, trace = trace st @
      [?get, Call_UpdateVirtualMachine (machineNamespace sc) ?vm]\<rparr>"
  have g: "getVM (GetName (virtualMachine sc)) sc (st\<lparr>world := w0\<rparr>) = ((Some existing, None), ?st1)"
    using getVM_applied [of sc "GetName (virtualMachine sc)" "st\<lparr>world := w0\<rparr>"] lk by simp
  have u: "updateVM (virtualMachine ?sc1) ?sc1 ?st1 = ((updated, updateVMErr), ?st2)"
    using updateVM_applied [of ?sc1 "virtualMachine ?sc1" ?st1] up
    by (simp add: carryResourceVersion_fields)
  obtain r sc' stb where b: "Update_body m sc (st\<lparr>world := w0\<rparr>) = (r, sc', stb)"
    by (cases "Update_body m sc (st\<lparr>world := w0\<rparr>)") auto
  have "\<exists>more. trace stb = trace ?st2 @ more"
    using b g u
    by (auto simp: Update_body_def Let_def dest!: getVM_trace
        split: prod.splits option.splits if_splits)
  then obtain more where "trace stb = trace ?st2 @ more" by blast
  then have "trace (snd (Update m machine st)) =
      trace st @ [?get, Call_UpdateVirtualMachine (machineNamespace sc) ?vm] @
        (more @ [Call_patchMachine (providerStatus sc')])"
    by (simp add: Update_unfold [OF scope b] deferred_patchMachine_trace)
  then have tr: "\<exists>rest. trace (snd (Update m machine st)) =
      trace st @ [?get, Call_UpdateVirtualMachine (machineNamespace sc) ?vm] @ rest"
    by blast
  have fail: "Update m machine st =
            (Return (case fst (patchMachine m ?sc1 w2) of
                       Some pe \<Rightarrow> Some pe
                     | None \<Rightarrow> Some (Errorf ''failed to update VM: '' (Library e))),
             \<lparr>world = snd (patchMachine m ?sc1 w2),
              trace = trace st @
                [?get, Call_UpdateVirtualMachine (machineNamespace sc) ?vm,
                 Call_patchMachine (providerStatus sc)]\<rparr>)"
    if "updateVMErr = Some e" for e
  proof -
    have body: "Update_body m sc (st\<lparr>world := w0\<rparr>) =
        (Return (Some (Errorf ''failed to update VM: '' (Library e))), ?sc1, ?st2)"
      using g u that by (simp add: Update_body_def Let_def)
    show ?thesis
      by (simp add: Update_unfold [OF scope body] deferred_patchMachine_applied
          carryResourceVersion_fields)
  qed
  have spec: "Update m machine st =
            (Return (case fst (patchMachine m sc3 w2) of
                       Some pe \<Rightarrow> Some pe
                     | None \<Rightarrow>
                         Some (Errorf ''failed to set machine cloud provider specifics: '' e)),
             \<lparr>world = snd (patchMachine m sc3 w2),
              trace = trace st @
                [?get, Call_UpdateVirtualMachine (machineNamespace sc) ?vm,
                 Call_patchMachine (providerStatus sc3)]\<rparr>)"
    if "updateVMErr = None"
      and "setMachineCloudProviderSpecifics m updated (setProviderID m updated ?sc1) = (Some e, sc3)"
    for e sc3
  proof -
    have body: "Update_body m sc (st\<lparr>world := w0\<rparr>) =
        (Return (Some (Errorf ''failed to set machine cloud provider specifics: '' e)), sc3, ?st2)"
      using g u that by (simp add: Update_body_def Let_def)
    show ?thesis
      by (simp add: Update_unfold [OF scope body] deferred_patchMachine_applied)
  qed
  from tr fail spec show ?thesis by blast
qed

text \<open>An instance: the VM found carries the version token 42 and the client refuses the update.\<close>

theorem Update_carries_ResourceVersion_witness:
  "Update
      (patchingManager
         (Inr (fakeScope (fakeClient (None, None) None
                 (\<lambda>n. (Some (remoteVM ''42'' True), None))
                 (None, Some admissionDenied)) False))
         None None)
      machine0 state0 =
     (Return (Some (Errorf ''failed to update VM: '' (Library admissionDenied))),
      \<lparr>world = 101,
       trace = [lookupCall,
                Call_UpdateVirtualMachine ''cluster''
                  \<lparr>ObjectMeta = \<lparr>Name = ''worker-0'', Namespace = ''cluster'',
                                 ResourceVersion = ''42''\<rparr>,
                   Status = \<lparr>Created = False, Ready = False\<rparr>\<rparr>,
                Call_patchMachine \<lparr>condition = None, vmFields = None\<rparr>]\<rparr>)"
  using Update_carries_ResourceVersion
    [where m = "patchingManager
         (Inr (fakeScope (fakeClient (None, None) None
                 (\<lambda>n. (Some (remoteVM ''42'' True), None))
                 (None, Some admissionDenied)) False))
         None None"
       and machine = machine0 and st = state0
       and sc = "fakeScope (fakeClient (None, None) None
                 (\<lambda>n. (Some (remoteVM ''42'' True), None))
                 (None, Some admissionDenied)) False"
       and ?w0.0 = 0 and existing = "remoteVM ''42'' True" and ?w1.0 = 1
       and updated = None and updateVMErr = "Some admissionDenied" and ?w2.0 = 1]
  by (simp add: wit2_defs)

section \<open>Classification of lookup errors\<close>

text \<open>
  C9, as stated, fails: Update does not return every lookup error unchanged. Here the lookup
  fails, the patch-back fails too, and Update returns the patch error, not the lookup error.
\<close>

theorem Update_lookup_error_patch_failure_counterexample:
  "fst (GetVirtualMachine
          (fakeClient (None, None) None (\<lambda>n. (None, Some admissionDenied)) (None, None))
          ''cluster'' ''worker-0'' \<lparr>GetOptions_ResourceVersion = []\<rparr> 0)
     = (None, Some admissionDenied)
   \<and> fst (Update
      (fakeManager
         (Inr (fakeScope (fakeClient (None, None) None (\<lambda>n. (None, Some admissionDenied))
                 (None, None)) False))
         (Some patchFailed) None)
      machine0 state0) = Return (Some patchFailed)
   \<and> patchFailed \<noteq> Library admissionDenied"
  by (simp add: fake_defs op_defs patchFailed_def admissionDenied_def)

text \<open>
  C9, amended. For a lookup, the client's own, that fails with error e: the body of Delete
  and Exists take the VM for absent, returning nil and (false, nil), exactly when the text of
  e contains "not found", and return e itself otherwise; the body of Update makes no such
  test and returns e unchanged, leaving the scope as it was, whatever the text. Delete and
  Update then apply the patch-back to the world the lookup left and return the body's
  result, unless the patch-back fails, in which case they return the patch error.
\<close>

theorem not_found_classification:
  "newMachineScope m machine (world st) = (Inr sc, w0) \<longrightarrow>
   GetVirtualMachine (kubevirtClient sc) (machineNamespace sc) (GetName (virtualMachine sc))
     \<lparr>GetOptions_ResourceVersion = []\<rparr> w0 = ((vm, Some e), w1) \<longrightarrow>
     fst (Delete_body m sc (st\<lparr>world := w0\<rparr>)) =
       (if sublist ''not found'' (Error e) then Return None else Return (Some (Library e)))
     \<and> Exists m machine st =
         ((False, if sublist ''not found'' (Error e) then None else Some (Library e)),
          \<lparr>world = w1, trace = trace st @
             [Call_GetVirtualMachine (machineNamespace sc) (GetName (virtualMachine sc))
                \<lparr>GetOptions_ResourceVersion = []\<rparr>]\<rparr>)
     \<and> Update_body m sc (st\<lparr>world := w0\<rparr>) =
         (Return (Some (Library e)), sc,
          \<lparr>world = w1, trace = trace st @
             [Call_GetVirtualMachine (machineNamespace sc) (GetName (virtualMachine sc))
                \<lparr>GetOptions_ResourceVersion = []\<rparr>]\<rparr>)
     \<and> Delete m machine st =
         (Return (case fst (patchMachine m sc w1) of
                    Some pe \<Rightarrow> Some pe
                  | None \<Rightarrow> if sublist ''not found'' (Error e) then None else Some (Library e)),
          \<lparr>world = snd (patchMachine m sc w1),
           trace = trace st @
             [Call_GetVirtualMachine (machineNamespace sc) (GetName (virtualMachine sc))
                \<lparr>GetOptions_ResourceVersion = []\<rparr>,
              Call_patchMachine (providerStatus sc)]\<rparr>)
     \<and> Update m machine st =
         (Return (case fst (patchMachine m sc w1) of
                    Some pe \<Rightarrow> Some pe
                  | None \<Rightarrow> Some (Library e)),
          \<lparr>world = snd (patchMachine m sc w1),
           trace = trace st @
             [Call_GetVirtualMachine (machineNamespace sc) (GetName (virtualMachine sc))
                \<lparr>GetOptions_ResourceVersion = []\<rparr>,
              Call_patchMachine (providerStatus sc)]\<rparr>)"
proof (intro impI)
  assume scope: "newMachineScope m machine (world st) = (Inr sc, w0)"
    and lk: "GetVirtualMachine (kubevirtClient sc) (machineNamespace sc) (GetName (virtualMachine sc))
     \<lparr>GetOptions_ResourceVersion = []\<rparr> w0 = ((vm, Some e), w1)"
  let ?get = "Call_GetVirtualMachine (machineNamespace sc) (GetName (virtualMachine sc))
                 \<lparr>GetOptions_ResourceVersion = []\<rparr>"
  let ?st1 = "\<lparr>world = w1, trace = trace st @ [?get]\<rparr>"
  have g: "getVM (GetName (virtualMachine sc)) sc (st\<lparr>world := w0\<rparr>) = ((vm, Some e), ?st1)"
    using getVM_applied [of sc "GetName (virtualMachine sc)" "st\<lparr>world := w0\<rparr>"] lk by simp
  note db = Delete_body_lookup_error [OF g, of m]
  note ub = Update_body_lookup_error [OF g, of m]
  have ex: "Exists m machine st =
         ((False, if sublist ''not found'' (Error e) then None else Some (Library e)), ?st1)"
    using g by (simp add: Exists_def prepareMachineScope_Inr [OF scope] Contains_sublist)
  have d: "Delete m machine st =
         (Return (case fst (patchMachine m sc w1) of
                    Some pe \<Rightarrow> Some pe
                  | None \<Rightarrow> if sublist ''not found'' (Error e) then None else Some (Library e)),
          \<lparr>world = snd (patchMachine m sc w1),
           trace = trace st @ [?get, Call_patchMachine (providerStatus sc)]\<rparr>)"
    by (simp add: Delete_unfold [OF scope db] deferred_patchMachine_applied split: option.splits)
  have u: "Update m machine st =
         (Return (case fst (patchMachine m sc w1) of
                    Some pe \<Rightarrow> Some pe
                  | None \<Rightarrow> Some (Library e)),
          \<lparr>world = snd (patchMachine m sc w1),
           trace = trace st @ [?get, Call_patchMachine (providerStatus sc)]\<rparr>)"
    by (simp add: Update_unfold [OF scope ub] deferred_patchMachine_applied)
  have db': "fst (Delete_body m sc (st\<lparr>world := w0\<rparr>)) =
       (if sublist ''not found'' (Error e) then Return None else Return (Some (Library e)))"
    by (simp add: db)
  from db' ex ub d u
  show "fst (Delete_body m sc (st\<lparr>world := w0\<rparr>)) =
       (if sublist ''not found'' (Error e) then Return None else Return (Some (Library e)))
     \<and> Exists m machine st =
         ((False, if sublist ''not found'' (Error e) then None else Some (Library e)), ?st1)
     \<and> Update_body m sc (st\<lparr>world := w0\<rparr>) = (Return (Some (Library e)), sc, ?st1)
     \<and> Delete m machine st =
         (Return (case fst (patchMachine m sc w1) of
                    Some pe \<Rightarrow> Some pe
                  | None \<Rightarrow> if sublist ''not found'' (Error e) then None else Some (Library e)),
          \<lparr>world = snd (patchMachine m sc w1),
           trace = trace st @ [?get, Call_patchMachine (providerStatus sc)]\<rparr>)
     \<and> Update m machine st =
         (Return (case fst (patchMachine m sc w1) of
                    Some pe \<Rightarrow> Some pe
                  | None \<Rightarrow> Some (Library e)),
          \<lparr>world = snd (patchMachine m sc w1),
           trace = trace st @ [?get, Call_patchMachine (providerStatus sc)]\<rparr>)"
    by blast
qed

text \<open>An instance: the lookup fails with a not-found error.\<close>

theorem not_found_classification_witness:
  "Delete
      (patchingManager
         (Inr (fakeScope (fakeClient (None, None) None (\<lambda>n. (None, Some vmNotFound))
                 (None, None)) True))
         None None)
      machine0 state0 =
     (Return None,
      \<lparr>world = 101,
       trace = [lookupCall, Call_patchMachine \<lparr>condition = None, vmFields = None\<rparr>]\<rparr>)
   \<and> Exists
      (patchingManager
         (Inr (fakeScope (fakeClient (None, None) None (\<lambda>n. (None, Some vmNotFound))
                 (None, None)) True))
         None None)
      machine0 state0 = ((False, None), \<lparr>world = 1, trace = [lookupCall]\<rparr>)
   \<and> Update
      (patchingManager
         (Inr (fakeScope (fakeClient (None, None) None (\<lambda>n. (None, Some vmNotFound))
                 (None, None)) True))
         None None)
      machine0 state0 =
     (Return (Some (Library vmNotFound)),
      \<lparr>world = 101,
       trace = [lookupCall, Call_patchMachine \<lparr>condition = None, vmFields = None\<rparr>]\<rparr>)"
  using not_found_classification
    [where m = "patchingManager
         (Inr (fakeScope (fakeClient (None, None) None (\<lambda>n. (None, Some vmNotFound))
                 (None, None)) True))
         None None"
       and machine = machine0 and st = state0
       and sc = "fakeScope (fakeClient (None, None) None (\<lambda>n. (None, Some vmNotFound))
                 (None, None)) True"
       and ?w0.0 = 0 and vm = None and e = vmNotFound and ?w1.0 = 1]
  by (simp add: wit2_defs)

section \<open>Nil virtual machines\<close>

text \<open>
  C10, as stated, fails for Update: readiness is evaluated on the re-fetched VM, so an update
  call that returns (nil, nil) is harmless when the re-fetch returns a VM. Here the client's
  update returns (nil, nil), the re-fetch returns a ready VM, and Update returns nil.
\<close>

theorem nil_VM_from_update_counterexample:
  "fst (UpdateVirtualMachine
          (fakeClient (None, None) None (\<lambda>n. (Some (remoteVM ''7'' True), None)) (None, None))
          ''cluster''
          (renderedVM\<lparr>ObjectMeta := (ObjectMeta renderedVM)\<lparr>ResourceVersion := ''7''\<rparr>\<rparr>) 1)
     = (None, None)
   \<and> Update
      (fakeManager
         (Inr (fakeScope (fakeClient (None, None) None
                 (\<lambda>n. (Some (remoteVM ''7'' True), None)) (None, None)) False))
         None None)
      machine0 state0 =
     (Return None,
      \<lparr>world = 2,
       trace = [lookupCall,
                Call_UpdateVirtualMachine ''cluster''
                  (renderedVM\<lparr>ObjectMeta := (ObjectMeta renderedVM)\<lparr>ResourceVersion := ''7''\<rparr>\<rparr>),
                lookupCall,
                Call_patchMachine \<lparr>condition = Some Success, vmFields = None\<rparr>]\<rparr>)"
  by (simp add: fake_defs op_defs lookupCall_def)

text \<open>
  C10, amended. requeueIfInstancePending panics on a nil VM. Create panics exactly
  when the creation returns (nil, nil) and the extraction of the provider specifics reports
  no error. Update, once the update call and the extraction have reported no error, panics
  exactly when the VM it evaluates is nil: the re-fetched VM, or the VM returned by the update
  call when the re-fetch fails.
\<close>

theorem nil_dereference_characterised:
  "requeueIfInstancePending None n = Panic
   \<and> (newMachineScope m machine (world st) = (Inr sc, w0) \<longrightarrow>
      createVM (virtualMachine sc) sc (st\<lparr>world := w0\<rparr>) = ((vm, createVMErr), st1) \<longrightarrow>
        (fst (Create m machine st) = Panic \<longleftrightarrow>
           createVMErr = None \<and> vm = None \<and>
           fst (setMachineCloudProviderSpecifics m None (setProviderID m None sc)) = None))
   \<and> (newMachineScope m machine (world st) = (Inr sc, w0) \<longrightarrow>
      getVM (GetName (virtualMachine sc)) sc (st\<lparr>world := w0\<rparr>) = ((Some existing, None), st1) \<longrightarrow>
      updateVM (virtualMachine (carryResourceVersion existing sc))
        (carryResourceVersion existing sc) st1 = ((updated, None), st2) \<longrightarrow>
      setMachineCloudProviderSpecifics m updated
        (setProviderID m updated (carryResourceVersion existing sc)) = (None, sc3) \<longrightarrow>
      getVM (GetName (virtualMachine (setProviderStatus updated conditionSuccess sc3)))
        (setProviderStatus updated conditionSuccess sc3) st2 = ((fetched, fetchErr), st3) \<longrightarrow>
        (fst (Update m machine st) = Panic \<longleftrightarrow>
           (if fetchErr \<noteq> None then updated else fetched) = None))"
proof (intro conjI impI)
  show "requeueIfInstancePending None n = Panic"
    by (simp add: requeueIfInstancePending_def)
next
  assume scope: "newMachineScope m machine (world st) = (Inr sc, w0)"
    and cr: "createVM (virtualMachine sc) sc (st\<lparr>world := w0\<rparr>) = ((vm, createVMErr), st1)"
  obtain r sc' stb where b: "Create_body m sc (st\<lparr>world := w0\<rparr>) = (r, sc', stb)"
    by (cases "Create_body m sc (st\<lparr>world := w0\<rparr>)") auto
  have "r = Panic \<longleftrightarrow>
           createVMErr = None \<and> vm = None \<and>
           fst (setMachineCloudProviderSpecifics m None (setProviderID m None sc)) = None"
    using b cr
    by (auto simp: Create_body_def Let_def requeueIfInstancePending_Panic
        split: prod.splits option.splits)
  then show "fst (Create m machine st) = Panic \<longleftrightarrow>
           createVMErr = None \<and> vm = None \<and>
           fst (setMachineCloudProviderSpecifics m None (setProviderID m None sc)) = None"
    by (simp add: Create_unfold [OF scope b] deferred_patchMachine_Panic)
next
  assume scope: "newMachineScope m machine (world st) = (Inr sc, w0)"
    and lk: "getVM (GetName (virtualMachine sc)) sc (st\<lparr>world := w0\<rparr>) = ((Some existing, None), st1)"
    and up: "updateVM (virtualMachine (carryResourceVersion existing sc))
        (carryResourceVersion existing sc) st1 = ((updated, None), st2)"
    and sp: "setMachineCloudProviderSpecifics m updated
        (setProviderID m updated (carryResourceVersion existing sc)) = (None, sc3)"
    and rf: "getVM (GetName (virtualMachine (setProviderStatus updated conditionSuccess sc3)))
        (setProviderStatus updated conditionSuccess sc3) st2 = ((fetched, fetchErr), st3)"
  have body: "Update_body m sc (st\<lparr>world := w0\<rparr>) =
     (requeueIfInstancePending (if fetchErr \<noteq> None then updated else fetched)
        (getMachineName (setProviderStatus updated conditionSuccess sc3)),
      setProviderStatus updated conditionSuccess sc3, st3)"
    using lk up sp rf by (simp add: Update_body_def Let_def)
  show "fst (Update m machine st) = Panic \<longleftrightarrow>
           (if fetchErr \<noteq> None then updated else fetched) = None"
    by (simp only: Update_unfold [OF scope body] deferred_patchMachine_Panic
        requeueIfInstancePending_Panic)
qed

text \<open>
  An instance: a creation that returns (nil, nil); an update that returns a VM, followed by
  a re-fetch that returns (nil, nil).
\<close>

theorem nil_dereference_characterised_witness:
  "fst (Create
      (fakeManager
         (Inr (fakeScope (fakeClient (None, None) None (\<lambda>n. (None, None)) (None, None)) False))
         None None)
      machine0 state0) = Panic
   \<and> fst (Update
      (fakeManager
         (Inr (fakeScope (fakeClient (None, None) None
                 (\<lambda>n. if n = 0 then (Some (remoteVM ''7'' True), None) else (None, None))
                 (Some (remoteVM ''8'' True), None)) False))
         None None)
      machine0 state0) = Panic"
  using nil_dereference_characterised
    [where m = "fakeManager
         (Inr (fakeScope (fakeClient (None, None) None (\<lambda>n. (None, None)) (None, None)) False))
         None None"
       and machine = machine0 and st = state0
       and sc = "fakeScope (fakeClient (None, None) None (\<lambda>n. (None, None)) (None, None)) False"
       and ?w0.0 = 0 and vm = None and createVMErr = None
       and ?st1.0 = "\<lparr>world = 0, trace = [Call_CreateVirtualMachine ''cluster'' renderedVM]\<rparr>"]
    nil_dereference_characterised
    [where m = "fakeManager
         (Inr (fakeScope (fakeClient (None, None) None
                 (\<lambda>n. if n = 0 then (Some (remoteVM ''7'' True), None) else (None, None))
                 (Some (remoteVM ''8'' True), None)) False))
         None None"
       and machine = machine0 and st = state0
       and sc = "fakeScope (fakeClient (None, None) None
                 (\<lambda>n. if n = 0 then (Some (remoteVM ''7'' True), None) else (None, None))
                 (Some (remoteVM ''8'' True), None)) False"
       and ?w0.0 = 0 and existing = "remoteVM ''7'' True"
       and ?st1.0 = "\<lparr>world = 1, trace = [lookupCall]\<rparr>"
       and updated = "Some (remoteVM ''8'' True)"
       and ?st2.0 = "\<lparr>world = 1, trace = [lookupCall,
            Call_UpdateVirtualMachine ''cluster''
              (renderedVM\<lparr>ObjectMeta := (ObjectMeta renderedVM)\<lparr>ResourceVersion := ''7''\<rparr>\<rparr>)]\<rparr>"
       and ?sc3.0 = "carryResourceVersion (remoteVM ''7'' True)
            (fakeScope (fakeClient (None, None) None
                 (\<lambda>n. if n = 0 then (Some (remoteVM ''7'' True), None) else (None, None))
                 (Some (remoteVM ''8'' True), None)) False)"
       and fetched = None and fetchErr = None
       and ?st3.0 = "\<lparr>world = 2, trace = [lookupCall,
            Call_UpdateVirtualMachine ''cluster''
              (renderedVM\<lparr>ObjectMeta := (ObjectMeta renderedVM)\<lparr>ResourceVersion := ''7''\<rparr>\<rparr>),
            lookupCall]\<rparr>"]
  by (simp add: wit_defs)

section \<open>The client builder\<close>

text \<open>
  C8. New returns an InvalidConfiguration error, and no client, exactly in the
  configuration cases: empty secret name, empty namespace, secret not found, secret without
  the key. In those cases the only call it has made is the lookup of the secret (none at all
  for an empty name or namespace): none of the functions that build the clients has run.
\<close>

theorem New_InvalidConfiguration:
  "((\<exists>msg. fst (New lib k secretName namespace st) =
        Return (None, Some (InvalidMachineConfiguration msg)))
      \<longleftrightarrow> configurationError k secretName namespace (world st))
   \<and> (configurationError k secretName namespace (world st) \<longrightarrow>
        trace (snd (New lib k secretName namespace st)) =
          trace st @
          (if secretName = [] \<or> namespace = [] then []
           else [Call_UserDataSecret secretName namespace]))"
  by (auto simp: New_def configurationError_def Let_def called_def
      split: prod.splits option.splits if_splits)

text \<open>
  An instance: a secret without the key; and a secret with the key whose kubeconfig the
  library rejects, which is not a configuration case.
\<close>

theorem New_InvalidConfiguration_witness:
  "(\<exists>msg. fst (New (fakeLibraries None)
       (fakeKubernetesClient (Some \<lparr>Data = Map.empty\<rparr>, None)) ''credentials'' ''cluster'' state0) =
        Return (None, Some (InvalidMachineConfiguration msg)))
   \<and> trace (snd (New (fakeLibraries None)
       (fakeKubernetesClient (Some \<lparr>Data = Map.empty\<rparr>, None)) ''credentials'' ''cluster'' state0)) =
        [Call_UserDataSecret ''credentials'' ''cluster'']
   \<and> \<not> (\<exists>msg. fst (New (fakeLibraries (Some admissionDenied))
       (fakeKubernetesClient (Some \<lparr>Data = [''kubeconfig'' \<mapsto> ''apiVersion: v1'']\<rparr>, None))
         ''credentials'' ''cluster'' state0) =
        Return (None, Some (InvalidMachineConfiguration msg)))"
  using New_InvalidConfiguration
      [of "fakeLibraries None" "fakeKubernetesClient (Some \<lparr>Data = Map.empty\<rparr>, None)"
          "''credentials''" "''cluster''" state0]
    New_InvalidConfiguration
      [of "fakeLibraries (Some admissionDenied)"
          "fakeKubernetesClient (Some \<lparr>Data = [''kubeconfig'' \<mapsto> ''apiVersion: v1'']\<rparr>, None)"
          "''credentials''" "''cluster''" state0]
  by (simp add: configurationError_def fakeKubernetesClient_def state0_def underKubeConfig_def)

end
